theory Spec2Isabelle
  imports Complex_Main "HOL-Library.Log_Nat" "HOL-Library.Char_ord" "HOL-Library.List_Lexorder"
begin

section \<open>The currency converter: the embedding of converter.js\<close>

text \<open>
  The widget is one script, \<^verbatim>\<open>converter.js\<close>: a configuration object, an application state
  object, a table of page elements, and event handlers over them. Strings are lists of
  characters, a character standing for one code unit of the script's strings (the model covers
  the code units below 256). Mutation of the page and of the application state is explicit
  state passing; promises are continuations run when a response event arrives.
\<close>

subsection \<open>Configuration (lines 24--31)\<close>

record config =
  API_KEY :: string
  API_BASE_URL :: string
  DEFAULT_FROM_CURRENCY :: string
  DEFAULT_TO_CURRENCY :: string
  ERROR_DISPLAY_DURATION :: nat
  DECIMAL_PLACES :: nat

definition CONFIG :: config where
  "CONFIG = \<lparr> API_KEY = ''5ff4ca04351879ddbe7f83ea'',
              API_BASE_URL = ''https://v6.exchangerate-api.com/v6'',
              DEFAULT_FROM_CURRENCY = ''USD'',
              DEFAULT_TO_CURRENCY = ''EUR'',
              ERROR_DISPLAY_DURATION = 5000,
              DECIMAL_PLACES = 2 \<rparr>"

subsection \<open>String primitives of the language\<close>

definition is_digit :: "char \<Rightarrow> bool" where
  "is_digit c \<longleftrightarrow> c \<in> set ''0123456789''"

text \<open>\<^verbatim>\<open>s.split(sep)\<close> for a one-character separator: never the empty array; the empty string
  splits into one empty part.\<close>

fun js_split :: "char \<Rightarrow> string \<Rightarrow> string list" where
  "js_split sep [] = [[]]"
| "js_split sep (c # cs) =
     (if c = sep then [] # js_split sep cs
      else (case js_split sep cs of
              [] \<Rightarrow> [[c]]
            | p # ps \<Rightarrow> (c # p) # ps))"

subsection \<open>Numbers of the language\<close>

text \<open>A Number is an IEEE 754 double: the finite non-zero values and \<open>+0\<close> are \<open>Fin q\<close> with
  their exact rational value (\<open>Fin 0\<close> is \<open>+0\<close>), \<open>NegZero\<close> is \<open>-0\<close>.\<close>

datatype js_number = NaN | PosInf | NegInf | NegZero | Fin rat

definition pow2 :: "int \<Rightarrow> rat" where
  "pow2 e = (if 0 \<le> e then of_int (2 ^ nat e) else 1 / of_int (2 ^ nat (- e)))"

definition pow10 :: "int \<Rightarrow> rat" where
  "pow10 e = (if 0 \<le> e then of_int (10 ^ nat e) else 1 / of_int (10 ^ nat (- e)))"

text \<open>The binary exponent of a positive rational: \<open>2 ^ e \<le> q < 2 ^ (e + 1)\<close>.\<close>

definition floor_log2 :: "rat \<Rightarrow> int" where
  "floor_log2 q = (case quotient_of q of (a, b) \<Rightarrow>
      (let d = bitlen a - bitlen b in if pow2 d \<le> q then d else d - 1))"

definition round_half_even :: "rat \<Rightarrow> int" where
  "round_half_even x =
     (let f = \<lfloor>x\<rfloor>; r = x - of_int f
      in if r < 1 / 2 then f else if 1 / 2 < r then f + 1 else if even f then f else f + 1)"

text \<open>``The Number value for \<open>x\<close>'': the nearest double, ties to the even significand;
  \<open>2 ^ 1024\<close> stands in for the infinities while rounding, and a negative value that rounds
  to zero gives \<open>-0\<close>.\<close>

definition number_value :: "rat \<Rightarrow> js_number" where
  "number_value x =
     (if x = 0 then Fin 0
      else let m = \<bar>x\<bar>;
               e = max (floor_log2 m) (- 1022);
               ulp = pow2 (e - 52);
               v = of_int (round_half_even (m / ulp)) * ulp
           in if pow2 1024 \<le> v then (if x < 0 then NegInf else PosInf)
              else if v = 0 then (if x < 0 then NegZero else Fin 0)
              else Fin (if x < 0 then - v else v))"


text \<open>Thrown values. \<open>NetworkError\<close> is the rejection of \<^verbatim>\<open>fetch\<close>, \<open>SyntaxError\<close> the one of
  \<^verbatim>\<open>response.json()\<close> on a body that is not JSON.\<close>

datatype js_error = NetworkError | SyntaxError | Error string | TypeError string | RangeError string

text \<open>What reading a property of a catalog can give: nothing, a number, or something every
  object inherits from \<^verbatim>\<open>Object.prototype\<close> (a function, or the prototype itself), kept by its
  name.\<close>

datatype js_value = Undefined | Num js_number | Inherited string

text \<open>White space and line terminators, as \<^verbatim>\<open>trim\<close> and \<^verbatim>\<open>parseFloat\<close> skip them
  (those below 256).\<close>

definition is_js_space :: "char \<Rightarrow> bool" where
  "is_js_space c \<longleftrightarrow> c \<in> set [CHR 0x09, CHR 0x0A, CHR 0x0B, CHR 0x0C, CHR 0x0D, CHR 0x20, CHR 0xA0]"

definition trim :: "string \<Rightarrow> string" where
  "trim s = rev (dropWhile is_js_space (rev (dropWhile is_js_space s)))"

definition digit_char :: "nat \<Rightarrow> char" where
  "digit_char d = ''0123456789'' ! d"

function decimal_digits :: "int \<Rightarrow> string" where
  "decimal_digits n =
     (if n < 10 then [digit_char (nat n)]
      else decimal_digits (n div 10) @ [digit_char (nat (n mod 10))])"
  by pat_completeness auto
termination
  by (relation "measure nat") auto

declare decimal_digits.simps [simp del]

definition int_of_digits :: "string \<Rightarrow> int" where
  "int_of_digits ds = foldl (\<lambda>n c. 10 * n + (of_char c - 48)) 0 ds"

text \<open>\<^verbatim>\<open>parseFloat\<close>: the longest prefix of the text, after leading white space, that is a
  \<open>StrDecimalLiteral\<close>; its mathematical value, rounded to a double. A literal is
  \<^verbatim>\<open>Infinity\<close> or integer digits, fraction digits and a decimal exponent.\<close>

datatype numeral_lit = InfinityLit | DecimalLit string string int

definition signed_integer :: "string \<Rightarrow> (int \<times> string) option" where
  "signed_integer s =
     (let (neg, r) = (case s of
                        c # r' \<Rightarrow> if c = CHR ''+'' then (False, r')
                                  else if c = CHR ''-'' then (True, r') else (False, s)
                      | [] \<Rightarrow> (False, s));
          ds = takeWhile is_digit r
      in if ds = [] then None
         else Some ((if neg then - int_of_digits ds else int_of_digits ds),
                    dropWhile is_digit r))"

definition exponent_part :: "string \<Rightarrow> int \<times> string" where
  "exponent_part s =
     (case s of
        c # r \<Rightarrow>
          if c = CHR ''e'' \<or> c = CHR ''E''
          then (case signed_integer r of Some (n, rest) \<Rightarrow> (n, rest) | None \<Rightarrow> (0, s))
          else (0, s)
      | [] \<Rightarrow> (0, s))"

definition str_unsigned_decimal_literal :: "string \<Rightarrow> (numeral_lit \<times> string) option" where
  "str_unsigned_decimal_literal s =
     (if take 8 s = ''Infinity'' then Some (InfinityLit, drop 8 s)
      else let ds = takeWhile is_digit s; r1 = dropWhile is_digit s
           in (case r1 of
                 c # r2 \<Rightarrow>
                   if c = CHR ''.''
                   then (let fs = takeWhile is_digit r2; r3 = dropWhile is_digit r2
                         in if ds = [] \<and> fs = [] then None
                            else (case exponent_part r3 of
                                    (e, r4) \<Rightarrow> Some (DecimalLit ds fs e, r4)))
                   else if ds = [] then None
                   else (case exponent_part r1 of (e, r4) \<Rightarrow> Some (DecimalLit ds [] e, r4))
               | [] \<Rightarrow> if ds = [] then None else Some (DecimalLit ds [] 0, [])))"

definition str_decimal_literal :: "string \<Rightarrow> (bool \<times> numeral_lit \<times> string) option" where
  "str_decimal_literal s =
     (case s of
        [] \<Rightarrow> None
      | c # r \<Rightarrow>
          (case str_unsigned_decimal_literal (if c = CHR ''+'' \<or> c = CHR ''-'' then r else s) of
             None \<Rightarrow> None
           | Some (lit, rest) \<Rightarrow> Some (c = CHR ''-'', lit, rest)))"

fun literal_value :: "bool \<Rightarrow> numeral_lit \<Rightarrow> js_number" where
  "literal_value neg InfinityLit = (if neg then NegInf else PosInf)"
| "literal_value neg (DecimalLit ds fs e) =
     (let mv = of_int (int_of_digits (ds @ fs)) * pow10 (e - int (length fs))
      in if mv = 0 then (if neg then NegZero else Fin 0)
         else number_value (if neg then - mv else mv))"

definition parseFloat :: "string \<Rightarrow> js_number" where
  "parseFloat s =
     (case str_decimal_literal (dropWhile is_js_space s) of
        None \<Rightarrow> NaN
      | Some (neg, lit, rest) \<Rightarrow> literal_value neg lit)"

text \<open>Multiplication, \<^verbatim>\<open>isNaN\<close> and the comparison with zero.\<close>

fun is_inf :: "js_number \<Rightarrow> bool" where
  "is_inf PosInf = True" | "is_inf NegInf = True" | "is_inf _ = False"

fun is_zero :: "js_number \<Rightarrow> bool" where
  "is_zero NegZero = True" | "is_zero (Fin q) = (q = 0)" | "is_zero _ = False"

fun is_negative :: "js_number \<Rightarrow> bool" where
  "is_negative NegInf = True" | "is_negative NegZero = True"
| "is_negative (Fin q) = (q < 0)" | "is_negative _ = False"

fun real_value :: "js_number \<Rightarrow> rat" where
  "real_value (Fin q) = q" | "real_value _ = 0"

definition js_times :: "js_number \<Rightarrow> js_number \<Rightarrow> js_number" where
  "js_times x y =
     (if x = NaN \<or> y = NaN then NaN
      else if (is_inf x \<and> is_zero y) \<or> (is_zero x \<and> is_inf y) then NaN
      else let neg = (is_negative x \<noteq> is_negative y)
           in if is_inf x \<or> is_inf y then (if neg then NegInf else PosInf)
              else if is_zero x \<or> is_zero y then (if neg then NegZero else Fin 0)
              else number_value (real_value x * real_value y))"

fun ToNumber :: "js_value \<Rightarrow> js_number" where
  "ToNumber Undefined = NaN" | "ToNumber (Num x) = x" | "ToNumber (Inherited k) = NaN"

fun js_isNaN :: "js_number \<Rightarrow> bool" where
  "js_isNaN NaN = True" | "js_isNaN _ = False"

fun js_le_zero :: "js_number \<Rightarrow> bool" where
  "js_le_zero NaN = False" | "js_le_zero PosInf = False" | "js_le_zero NegInf = True"
| "js_le_zero NegZero = True" | "js_le_zero (Fin q) = (q \<le> 0)"

text \<open>The decimal exponent of a positive rational: \<open>10 ^ e \<le> q < 10 ^ (e + 1)\<close>.\<close>

definition floor_log10 :: "rat \<Rightarrow> int" where
  "floor_log10 q =
     (if 1 \<le> q then int (length (decimal_digits \<lfloor>q\<rfloor>)) - 1
      else - int (length (decimal_digits (\<lceil>1 / q\<rceil> - 1))))"

text \<open>The shortest decimal that reads back as the positive double \<open>x\<close> (the digits of
  \<^verbatim>\<open>Number::toString\<close>): for \<open>k = 1, 2, \<dots>\<close> significant digits, the two decimals of \<open>k\<close> digits
  around \<open>x\<close>; the first \<open>k\<close> for which one of them rounds to \<open>x\<close> decides, the nearer one of
  two. Seventeen digits always do.\<close>

definition shortest_candidates :: "rat \<Rightarrow> nat \<Rightarrow> rat list" where
  "shortest_candidates x k =
     (let sc = pow10 (floor_log10 x + 1 - int k);
          s = \<lfloor>x / sc\<rfloor>;
          lo = of_int s * sc;
          hi = of_int (s + 1) * sc;
          ok = filter (\<lambda>c. number_value c = Fin x) [lo, hi]
      in (case ok of
            [a, b] \<Rightarrow> if x - a < b - x then [a]
                       else if b - x < x - a then [b]
                       else if even s then [a] else [b]
          | _ \<Rightarrow> ok))"

fun first_shortest :: "rat \<Rightarrow> nat list \<Rightarrow> rat" where
  "first_shortest x [] = x"
| "first_shortest x (k # ks) =
     (case shortest_candidates x k of
        [] \<Rightarrow> first_shortest x ks
      | c # _ \<Rightarrow> c)"

definition shortest_decimal :: "rat \<Rightarrow> rat" where
  "shortest_decimal x = (if x = 0 then 0 else first_shortest x [1..<18])"

text \<open>\<^verbatim>\<open>toFixed\<close>: the integer \<open>n\<close> with \<open>n / 10 ^ f\<close> nearest to \<open>x\<close> (the larger one of two),
  written with \<open>f\<close> digits after the point. From \<open>10 ^ 21\<close> on the result is the shortest
  decimal of the double, in exponent form.\<close>

definition fixed_parts :: "rat \<Rightarrow> nat \<Rightarrow> string \<times> string" where
  "fixed_parts x f =
     (let n = \<lfloor>x * pow10 (int f) + 1 / 2\<rfloor>;
          m = decimal_digits n;
          m' = replicate (Suc f - length m) (CHR ''0'') @ m;
          k = length m'
      in (take (k - f) m', drop (k - f) m'))"

definition Number_toString_large :: "rat \<Rightarrow> string" where
  "Number_toString_large x =
     (let ds = decimal_digits \<lfloor>shortest_decimal x\<rfloor>;
          mant = rev (dropWhile (\<lambda>d. d = CHR ''0'') (rev ds))
      in (case mant of
            [] \<Rightarrow> ''0''
          | [d] \<Rightarrow> [d]
          | d # rest \<Rightarrow> d # ''.'' @ rest) @ ''e+'' @ decimal_digits (int (length ds) - 1))"

definition toFixed :: "js_number \<Rightarrow> nat \<Rightarrow> js_error + string" where
  "toFixed x f =
     (if 100 < f then Inl (RangeError ''toFixed() digits argument must be between 0 and 100'')
      else Inr (case x of
                  NaN \<Rightarrow> ''NaN''
                | PosInf \<Rightarrow> ''Infinity''
                | NegInf \<Rightarrow> ''-Infinity''
                | NegZero \<Rightarrow> (case fixed_parts 0 f of (a, b) \<Rightarrow> a @ (if f = 0 then [] else ''.'' @ b))
                | Fin q \<Rightarrow>
                    (if q < 0 then ''-'' else []) @
                    (if pow10 21 \<le> \<bar>q\<bar> then Number_toString_large \<bar>q\<bar>
                     else (case fixed_parts \<bar>q\<bar> f of (a, b) \<Rightarrow> a @ (if f = 0 then [] else ''.'' @ b)))))"

text \<open>\<^verbatim>\<open>toLocaleString('en-US', {minimumFractionDigits: f, maximumFractionDigits: f})\<close>:
  the shortest decimal of the double, rounded to \<open>f\<close> digits after the point with halves
  away from zero, the integer digits in groups of three separated by commas. The infinity
  sign is outside the characters modelled and is written as its three UTF-8 bytes.\<close>

fun group_rev :: "string \<Rightarrow> string" where
  "group_rev (a # b # c # d # r) = a # b # c # CHR '','' # group_rev (d # r)"
| "group_rev ds = ds"

definition group_thousands :: "string \<Rightarrow> string" where
  "group_thousands ds = rev (group_rev (rev ds))"

definition infinity_sign :: string where
  "infinity_sign = [CHR 0xE2, CHR 0x88, CHR 0x9E]"

definition toLocaleString :: "js_number \<Rightarrow> nat \<Rightarrow> js_error + string" where
  "toLocaleString x f =
     (if 100 < f
      then Inl (RangeError ''maximumFractionDigits value is out of range'')
      else Inr (case x of
                  NaN \<Rightarrow> ''NaN''
                | PosInf \<Rightarrow> infinity_sign
                | NegInf \<Rightarrow> ''-'' @ infinity_sign
                | NegZero \<Rightarrow> ''-'' @ (case fixed_parts 0 f of
                                         (a, b) \<Rightarrow> group_thousands a @ (if f = 0 then [] else ''.'' @ b))
                | Fin q \<Rightarrow>
                    (if q < 0 then ''-'' else []) @
                    (case fixed_parts (shortest_decimal \<bar>q\<bar>) f of
                       (a, b) \<Rightarrow> group_thousands a @ (if f = 0 then [] else ''.'' @ b))))"

subsection \<open>The amount filter of \<^verbatim>\<open>handleAmountInput\<close> (lines 229--243)\<close>

text \<open>The text computed from \<^verbatim>\<open>event.target.value\<close> before it is written back. The second
  \<^verbatim>\<open>if\<close> reads \<^verbatim>\<open>parts[1]\<close> of the split made before the first one: an absent or empty
  \<^verbatim>\<open>parts[1]\<close> is falsy.\<close>

definition sanitized_amount :: "config \<Rightarrow> string \<Rightarrow> string" where
  "sanitized_amount cfg v0 =
     (let v1 = filter (\<lambda>c. is_digit c \<or> c = CHR ''.'') v0;
          parts = js_split (CHR ''.'') v1;
          v2 = (if length parts > 2
                then (case parts of [] \<Rightarrow> v1 | p0 # ps \<Rightarrow> p0 @ ''.'' @ concat ps)
                else v1)
      in (case parts of
            p0 # p1 # _ \<Rightarrow>
              if p1 \<noteq> [] \<and> length p1 > DECIMAL_PLACES cfg
              then p0 @ ''.'' @ take (DECIMAL_PLACES cfg) p1
              else v2
          | _ \<Rightarrow> v2))"

subsection \<open>Application state, page elements and the environment (lines 37--58)\<close>

text \<open>A catalog is the object received as \<^verbatim>\<open>conversion_rates\<close>: its own properties in
  order, each name once. Reading a name it does not have itself goes on to
  \<^verbatim>\<open>Object.prototype\<close>, and gives \<^verbatim>\<open>undefined\<close> when that has no such name either.\<close>

type_synonym rates = "(string \<times> js_number) list"

definition object_prototype_names :: "string list" where
  "object_prototype_names =
     [''constructor'', ''hasOwnProperty'', ''isPrototypeOf'', ''propertyIsEnumerable'',
      ''toLocaleString'', ''toString'', ''valueOf'', ''__defineGetter__'', ''__defineSetter__'',
      ''__lookupGetter__'', ''__lookupSetter__'', ''__proto__'']"

definition property :: "rates \<Rightarrow> string \<Rightarrow> js_value" where
  "property m k =
     (case map_of m k of
        Some r \<Rightarrow> Num r
      | None \<Rightarrow> if k \<in> set object_prototype_names then Inherited k else Undefined)"

fun truthy :: "js_value \<Rightarrow> bool" where
  "truthy Undefined = False"
| "truthy (Num x) = (\<not> js_isNaN x \<and> \<not> is_zero x)"
| "truthy (Inherited k) = True"

text \<open>Assigning to the \<^verbatim>\<open>value\<close> of a selection list selects the option with that value; with
  no such option nothing is selected and the value reads as the empty string.\<close>

definition select_value :: "string list \<Rightarrow> string \<Rightarrow> string" where
  "select_value options v = (if v \<in> set options then v else [])"

datatype element = AmountEl | FromCurrencyEl | ToCurrencyEl

text \<open>A pending timer: its handle, the time it is due, and which of the script's two timer
  callbacks it runs (the error auto-hide of line 411, the animation restart of line 359).\<close>

datatype timer_callback = HideErrorCb | AnimationCb

datatype timer = Timer (tid: nat) (due: nat) (callback: timer_callback)

text \<open>A request in flight: its address and the promise chain waiting for it, with the
  variables the chain closes over (amount, source and target of a conversion).\<close>

datatype continuation = CatalogLoad | RateFetch js_number string string

datatype request = Request (url: string) (cont: continuation)

text \<open>\<^verbatim>\<open>AppState\<close> (the first four fields; \<^verbatim>\<open>currencies\<close> is \<open>None\<close> when it holds
  \<^verbatim>\<open>undefined\<close> or \<^verbatim>\<open>null\<close>), the properties of the \<^verbatim>\<open>DOM\<close> elements the script
  reads or writes, and the environment: whether \<^verbatim>\<open>setupEventListeners\<close> has run, the pending
  timers, the next timer handle, the clock in milliseconds, the requests in flight and the
  console.\<close>

record state =
  currencies :: "rates option"
  isLoading :: bool
  currentExchangeRate :: "js_number option"
  errorTimeout :: "nat option"
  amount_value :: string
  amount_disabled :: bool
  fromCurrency_value :: string
  fromCurrency_disabled :: bool
  fromCurrency_options :: "string list"
  toCurrency_value :: string
  toCurrency_disabled :: bool
  toCurrency_options :: "string list"
  convertBtn_disabled :: bool
  btnText_textContent :: string
  btnLoader_d_none :: bool
  errorMessage_textContent :: string
  errorMessage_d_none :: bool
  resultAmount_textContent :: string
  resultAmount_animation :: string
  exchangeRate_textContent :: string
  focused :: "element option"
  listeners :: bool
  timers :: "timer list"
  next_timer :: nat
  clock :: nat
  inflight :: "request list"
  console :: "(string \<times> js_error) list"

text \<open>\<^verbatim>\<open>setTimeout\<close> hands out the next handle; \<^verbatim>\<open>clearTimeout\<close> drops the timer with a handle,
  if it is still pending.\<close>

definition setTimeout :: "timer_callback \<Rightarrow> nat \<Rightarrow> state \<Rightarrow> nat \<times> state" where
  "setTimeout cb delay s =
     (next_timer s,
      s\<lparr>timers := timers s @ [Timer (next_timer s) (clock s + delay) cb],
        next_timer := Suc (next_timer s)\<rparr>)"

definition clearTimeout :: "nat \<Rightarrow> state \<Rightarrow> state" where
  "clearTimeout i s = s\<lparr>timers := filter (\<lambda>t. tid t \<noteq> i) (timers s)\<rparr>"

definition console_error :: "string \<Rightarrow> js_error \<Rightarrow> state \<Rightarrow> state" where
  "console_error label e s = s\<lparr>console := console s @ [(label, e)]\<rparr>"

subsection \<open>Display functions (lines 342--425)\<close>

text \<open>\<^verbatim>\<open>hideError\<close> (lines 419--425). A handle is truthy when it is not zero.\<close>

definition hideError :: "state \<Rightarrow> state" where
  "hideError s =
     (let s1 = s\<lparr>errorMessage_d_none := True\<rparr>
      in (case errorTimeout s1 of
            Some i \<Rightarrow> if i \<noteq> 0 then (clearTimeout i s1)\<lparr>errorTimeout := None\<rparr> else s1
          | None \<Rightarrow> s1))"

text \<open>\<^verbatim>\<open>displayError\<close> (lines 401--414).\<close>

definition displayError :: "config \<Rightarrow> string \<Rightarrow> state \<Rightarrow> state" where
  "displayError cfg message s =
     (let s1 = s\<lparr>errorMessage_textContent := message, errorMessage_d_none := False\<rparr>;
          s2 = (case errorTimeout s1 of
                  Some i \<Rightarrow> if i \<noteq> 0 then clearTimeout i s1 else s1
                | None \<Rightarrow> s1)
      in (case setTimeout HideErrorCb (ERROR_DISPLAY_DURATION cfg) s2 of
            (i, s3) \<Rightarrow> s3\<lparr>errorTimeout := Some i\<rparr>))"

text \<open>\<^verbatim>\<open>setLoadingState\<close> (lines 378--395).\<close>

definition setLoadingState :: "bool \<Rightarrow> state \<Rightarrow> state" where
  "setLoadingState loading s =
     s\<lparr>isLoading := loading,
       convertBtn_disabled := loading,
       amount_disabled := loading,
       fromCurrency_disabled := loading,
       toCurrency_disabled := loading,
       btnText_textContent := (if loading then ''Converting...'' else ''Convert''),
       btnLoader_d_none := (\<not> loading)\<rparr>"

text \<open>\<^verbatim>\<open>resetResults\<close> (lines 367--372).\<close>

definition resetResults :: "state \<Rightarrow> state" where
  "resetResults s =
     hideError (s\<lparr>resultAmount_textContent := ''--'',
                  exchangeRate_textContent := ''Exchange Rate: 1 [SOURCE] = [RATE] [TARGET]'',
                  currentExchangeRate := None\<rparr>)"

text \<open>\<^verbatim>\<open>displayConversionResults\<close> (lines 342--362): the state it leaves and what it throws,
  if anything. The amount is written before the rate is formatted, and \<^verbatim>\<open>rate.toFixed\<close> is
  a TypeError on \<^verbatim>\<open>undefined\<close> and on what is not a number.\<close>

definition displayConversionResults ::
    "config \<Rightarrow> string \<Rightarrow> js_value \<Rightarrow> string \<Rightarrow> string \<Rightarrow> state \<Rightarrow> state \<times> js_error option" where
  "displayConversionResults cfg convertedAmount rate fromCurrency toCurrency s =
     (case toLocaleString (parseFloat convertedAmount) (DECIMAL_PLACES cfg) of
        Inl e \<Rightarrow> (s, Some e)
      | Inr formattedAmount \<Rightarrow>
          (let s1 = s\<lparr>resultAmount_textContent := formattedAmount\<rparr>
           in (case rate of
                 Undefined \<Rightarrow>
                   (s1, Some (TypeError ''Cannot read properties of undefined (reading 'toFixed')''))
               | Inherited k \<Rightarrow> (s1, Some (TypeError ''rate.toFixed is not a function''))
               | Num r \<Rightarrow>
                   (case toFixed r 4 of
                      Inl e \<Rightarrow> (s1, Some e)
                    | Inr formattedRate \<Rightarrow>
                        (let s2 = s1\<lparr>exchangeRate_textContent :=
                                        ''Exchange Rate: 1 '' @ fromCurrency @ '' = '' @
                                        formattedRate @ '' '' @ toCurrency,
                                      currentExchangeRate := Some r,
                                      resultAmount_animation := ''none''\<rparr>
                         in (snd (setTimeout AnimationCb 10 s2), None))))))"

subsection \<open>Validation (lines 287--329)\<close>

definition validateInputs :: "config \<Rightarrow> state \<Rightarrow> bool \<times> state" where
  "validateInputs cfg s =
     (let amount = trim (amount_value s);
          fromCurrency = fromCurrency_value s;
          toCurrency = toCurrency_value s
      in if amount = []
         then (False, (displayError cfg ''Please enter an amount to convert'' s)
                        \<lparr>focused := Some AmountEl\<rparr>)
         else let numAmount = parseFloat amount
              in if js_isNaN numAmount \<or> js_le_zero numAmount
                 then (False, (displayError cfg ''Please enter a valid amount greater than 0'' s)
                                \<lparr>focused := Some AmountEl\<rparr>)
                 else if fromCurrency = []
                 then (False, (displayError cfg ''Please select a source currency'' s)
                                \<lparr>focused := Some FromCurrencyEl\<rparr>)
                 else if toCurrency = []
                 then (False, (displayError cfg ''Please select a target currency'' s)
                                \<lparr>focused := Some ToCurrencyEl\<rparr>)
                 else if fromCurrency = toCurrency
                 then (False, (displayError cfg ''Source and target currencies must be different'' s)
                                \<lparr>focused := Some ToCurrencyEl\<rparr>)
                 else (True, s))"

subsection \<open>The rate client (lines 88--147)\<close>

text \<open>What a request comes back with: no response at all, or a status and a body; a body
  that is JSON is an object with the fields the script reads, of which \<^verbatim>\<open>error-type\<close> and
  \<^verbatim>\<open>conversion_rates\<close> may be missing.\<close>

record payload =
  result :: string
  error_type :: "string option"
  conversion_rates :: "rates option"

datatype fetch_outcome = NetworkFailure | Response nat "payload option"

text \<open>The first \<^verbatim>\<open>then\<close> of both chains (lines 95--100 and 131--136): \<^verbatim>\<open>response.ok\<close> is a
  status from 200 to 299.\<close>

definition response_json :: "fetch_outcome \<Rightarrow> js_error + payload" where
  "response_json out =
     (case out of
        NetworkFailure \<Rightarrow> Inl NetworkError
      | Response status body \<Rightarrow>
          if \<not> (200 \<le> status \<and> status \<le> 299)
          then Inl (Error (''HTTP error! Status: '' @ decimal_digits (int status)))
          else (case body of None \<Rightarrow> Inl SyntaxError | Some data \<Rightarrow> Inr data))"

definition error_type_or :: "payload \<Rightarrow> string \<Rightarrow> string" where
  "error_type_or data dflt =
     (case error_type data of None \<Rightarrow> dflt | Some m \<Rightarrow> if m = [] then dflt else m)"

text \<open>\<^verbatim>\<open>fetchExchangeRate\<close>: the address it requests (line 128) and how the promise settles
  once the request has come back (lines 131--145). Reading a currency of a missing
  \<^verbatim>\<open>conversion_rates\<close> throws, which rejects the promise.\<close>

definition fetchExchangeRate_url :: "config \<Rightarrow> string \<Rightarrow> string" where
  "fetchExchangeRate_url cfg fromCurrency =
     API_BASE_URL cfg @ ''/'' @ API_KEY cfg @ ''/latest/'' @ fromCurrency"

definition fetchExchangeRate :: "string \<Rightarrow> fetch_outcome \<Rightarrow> js_error + js_value" where
  "fetchExchangeRate toCurrency out =
     (case response_json out of
        Inl e \<Rightarrow> Inl e
      | Inr data \<Rightarrow>
          if result data \<noteq> ''success''
          then Inl (Error (error_type_or data ''Failed to fetch exchange rate''))
          else (case conversion_rates data of
                  None \<Rightarrow>
                    Inl (TypeError ''Cannot read properties of undefined'')
                | Some m \<Rightarrow> Inr (property m toCurrency)))"

subsection \<open>Populating the page (lines 156--196)\<close>

text \<open>\<^verbatim>\<open>Object.keys\<close> throws on \<^verbatim>\<open>undefined\<close>, before anything is written; so does reading a
  property of it.\<close>

definition populateCurrencyDropdowns :: "state \<Rightarrow> state \<times> js_error option" where
  "populateCurrencyDropdowns s =
     (case currencies s of
        None \<Rightarrow> (s, Some (TypeError ''Cannot convert undefined or null to object''))
      | Some m \<Rightarrow>
          (let currencyCodes = sort (remdups (map fst m))
           in (s\<lparr>fromCurrency_options := currencyCodes, fromCurrency_value := [],
                 toCurrency_options := currencyCodes, toCurrency_value := []\<rparr>, None)))"

definition setDefaultCurrencies :: "config \<Rightarrow> state \<Rightarrow> state \<times> js_error option" where
  "setDefaultCurrencies cfg s =
     (case currencies s of
        None \<Rightarrow> (s, Some (TypeError ''Cannot read properties of undefined''))
      | Some m \<Rightarrow>
          (let s1 = (if truthy (property m (DEFAULT_FROM_CURRENCY cfg))
                     then s\<lparr>fromCurrency_value :=
                              select_value (fromCurrency_options s) (DEFAULT_FROM_CURRENCY cfg)\<rparr>
                     else s)
           in (if truthy (property m (DEFAULT_TO_CURRENCY cfg))
               then s1\<lparr>toCurrency_value :=
                        select_value (toCurrency_options s1) (DEFAULT_TO_CURRENCY cfg)\<rparr>
               else s1, None)))"

subsection \<open>Start-up (lines 67--118)\<close>

text \<open>\<^verbatim>\<open>initializeApp\<close> up to the request of the catalog, and the rest of it together with
  the chain of \<^verbatim>\<open>loadAvailableCurrencies\<close> once that request has come back: the \<^verbatim>\<open>catch\<close> of
  line 74, the \<^verbatim>\<open>catch\<close> of line 111 (which rejects into the former), and the two \<^verbatim>\<open>then\<close> of
  lines 101 and 69. What is thrown inside a \<^verbatim>\<open>then\<close> goes to the \<^verbatim>\<open>catch\<close> that follows it.\<close>

definition initializeApp :: "config \<Rightarrow> state \<Rightarrow> state" where
  "initializeApp cfg s =
     (let s1 = setLoadingState True s
      in s1\<lparr>inflight := inflight s1 @
               [Request (API_BASE_URL cfg @ ''/'' @ API_KEY cfg @ ''/latest/USD'') CatalogLoad]\<rparr>)"

definition initialization_failed :: "config \<Rightarrow> js_error \<Rightarrow> state \<Rightarrow> state" where
  "initialization_failed cfg e s =
     console_error ''Initialization error:'' e
       (displayError cfg ''Failed to initialize application. Please refresh the page.'' s)"

definition catalog_rejected :: "config \<Rightarrow> js_error \<Rightarrow> state \<Rightarrow> state" where
  "catalog_rejected cfg e s =
     (let s1 = displayError cfg
                 ''Unable to load currencies. Please check your internet connection and API key.'' s;
          s2 = console_error ''Currency loading error:'' e s1;
          s3 = setLoadingState False s2
      in initialization_failed cfg e s3)"

definition catalog_settled :: "config \<Rightarrow> fetch_outcome \<Rightarrow> state \<Rightarrow> state" where
  "catalog_settled cfg out s =
     (case response_json out of
        Inl e \<Rightarrow> catalog_rejected cfg e s
      | Inr data \<Rightarrow>
          if result data \<noteq> ''success''
          then catalog_rejected cfg (Error (error_type_or data ''API request failed'')) s
          else (case populateCurrencyDropdowns (s\<lparr>currencies := conversion_rates data\<rparr>) of
                  (s2, Some e) \<Rightarrow> catalog_rejected cfg e s2
                | (s2, None) \<Rightarrow>
                    (let s3 = setLoadingState False s2;
                         s4 = s3\<lparr>listeners := True\<rparr>
                     in (case setDefaultCurrencies cfg s4 of
                           (s5, Some e) \<Rightarrow> initialization_failed cfg e s5
                         | (s5, None) \<Rightarrow> s5\<lparr>focused := Some AmountEl\<rparr>))))"

subsection \<open>Event handlers (lines 228--277)\<close>

definition handleAmountInput :: "config \<Rightarrow> state \<Rightarrow> state" where
  "handleAmountInput cfg s =
     hideError (s\<lparr>amount_value := sanitized_amount cfg (amount_value s)\<rparr>)"

text \<open>\<^verbatim>\<open>handleConversionRequest\<close> up to the request of the rate (lines 253--266).\<close>

definition handleConversionRequest :: "config \<Rightarrow> state \<Rightarrow> state" where
  "handleConversionRequest cfg s =
     (case validateInputs cfg (hideError s) of
        (False, s1) \<Rightarrow> s1
      | (True, s1) \<Rightarrow>
          (let amount = parseFloat (amount_value s1);
               fromCurrency = fromCurrency_value s1;
               toCurrency = toCurrency_value s1;
               s2 = setLoadingState True s1
           in s2\<lparr>inflight := inflight s2 @
                    [Request (fetchExchangeRate_url cfg fromCurrency)
                       (RateFetch amount fromCurrency toCurrency)]\<rparr>))"

text \<open>The two callbacks of lines 267--276. The first one may throw, after which the second
  one runs on the state it left.\<close>

definition conversion_rejected :: "config \<Rightarrow> js_error \<Rightarrow> state \<Rightarrow> state" where
  "conversion_rejected cfg e s =
     setLoadingState False
       (console_error ''Conversion error:'' e
          (displayError cfg ''Conversion failed. Please try again.'' s))"

definition conversion_resolved ::
    "config \<Rightarrow> js_number \<Rightarrow> string \<Rightarrow> string \<Rightarrow> js_value \<Rightarrow> state \<Rightarrow> state \<times> js_error option" where
  "conversion_resolved cfg amount fromCurrency toCurrency rate s =
     (case toFixed (js_times amount (ToNumber rate)) (DECIMAL_PLACES cfg) of
        Inl e \<Rightarrow> (s, Some e)
      | Inr convertedAmount \<Rightarrow>
          (case displayConversionResults cfg convertedAmount rate fromCurrency toCurrency s of
             (s1, Some e) \<Rightarrow> (s1, Some e)
           | (s1, None) \<Rightarrow> (setLoadingState False s1, None)))"

definition conversion_settled ::
    "config \<Rightarrow> js_number \<Rightarrow> string \<Rightarrow> string \<Rightarrow> fetch_outcome \<Rightarrow> state \<Rightarrow> state" where
  "conversion_settled cfg amount fromCurrency toCurrency out s =
     (case fetchExchangeRate toCurrency out of
        Inl e \<Rightarrow> conversion_rejected cfg e s
      | Inr rate \<Rightarrow>
          (case conversion_resolved cfg amount fromCurrency toCurrency rate s of
             (s1, None) \<Rightarrow> s1
           | (s1, Some e) \<Rightarrow> conversion_rejected cfg e s1))"

subsection \<open>The event loop\<close>

text \<open>A timer that fires runs its callback.\<close>

definition fire :: "timer \<Rightarrow> state \<Rightarrow> state" where
  "fire t s =
     (case callback t of
        HideErrorCb \<Rightarrow> hideError s
      | AnimationCb \<Rightarrow> s\<lparr>resultAmount_animation := ''slideDown 0.3s ease''\<rparr>)"

text \<open>The pending timer to fire next before time \<open>T\<close> is over: the earliest one due, the one
  set first among equals.\<close>

fun earliest :: "timer list \<Rightarrow> timer option" where
  "earliest [] = None"
| "earliest (t # ts) =
     (case earliest ts of
        None \<Rightarrow> Some t
      | Some u \<Rightarrow> if due u < due t then Some u else Some t)"

definition next_due :: "nat \<Rightarrow> timer list \<Rightarrow> timer option" where
  "next_due T ts = earliest (filter (\<lambda>t. due t \<le> T) ts)"

text \<open>Time passes until \<open>T\<close>: the timers due by then fire in order, each at its own time.\<close>

function advance :: "nat \<Rightarrow> state \<Rightarrow> state" where
  "advance T s =
     (case next_due T (timers s) of
        None \<Rightarrow> s\<lparr>clock := max (clock s) T\<rparr>
      | Some t \<Rightarrow>
          advance T (fire t (s\<lparr>timers := remove1 t (timers s),
                               clock := max (clock s) (due t)\<rparr>)))"
  by pat_completeness auto
termination
proof (relation "measure (\<lambda>(T, s). length (timers s))")
  show "wf (measure (\<lambda>(T, s). length (timers s)))" by simp
next
  fix T :: nat and s :: state and t :: timer
  let ?s = "s\<lparr>timers := remove1 t (timers s), clock := max (clock s) (due t)\<rparr>"
  assume due: "next_due T (timers s) = Some t"
  have "earliest ts = Some u \<Longrightarrow> u \<in> set ts" for ts u
    by (induction ts arbitrary: u) (auto split: option.splits if_splits)
  from this [of "filter (\<lambda>t. due t \<le> T) (timers s)" t] due
  have mem: "t \<in> set (timers s)" by (simp add: next_due_def)
  have "length (timers (hideError ?s)) \<le> length (timers ?s)"
    by (simp add: hideError_def clearTimeout_def Let_def split: option.splits)
  then have "length (timers (fire t ?s)) \<le> length (remove1 t (timers s))"
    by (simp add: fire_def split: timer_callback.splits)
  also have "\<dots> < length (timers s)"
    using mem by (simp add: length_remove1) (cases "timers s"; simp)
  finally show "((T, fire t ?s), (T, s)) \<in> measure (\<lambda>(T, s). length (timers s))"
    by simp
qed

declare advance.simps [simp del]

text \<open>What can happen to the page. The browser delivers no click to a disabled button and no
  keyboard or input event to a disabled field, and a selection changes only to one of the
  options of an enabled list; the handlers of lines 207--221 run once they are installed,
  those of lines 434--445 from the start.\<close>

datatype event =
    ConvertClick
  | AmountKeypress string
  | AmountInput string
  | FromCurrencyChange string
  | ToCurrencyChange string
  | FetchSettled nat fetch_outcome
  | TimePasses nat
  | WindowError js_error
  | UnhandledRejection js_error

definition settle :: "config \<Rightarrow> nat \<Rightarrow> fetch_outcome \<Rightarrow> state \<Rightarrow> state" where
  "settle cfg i out s =
     (if i < length (inflight s)
      then (let s1 = s\<lparr>inflight := take i (inflight s) @ drop (Suc i) (inflight s)\<rparr>
            in (case cont (inflight s ! i) of
                  CatalogLoad \<Rightarrow> catalog_settled cfg out s1
                | RateFetch amount fromCurrency toCurrency \<Rightarrow>
                    conversion_settled cfg amount fromCurrency toCurrency out s1))
      else s)"

fun dispatch :: "config \<Rightarrow> event \<Rightarrow> state \<Rightarrow> state" where
  "dispatch cfg ConvertClick s =
     (if listeners s \<and> \<not> convertBtn_disabled s then handleConversionRequest cfg s else s)"
| "dispatch cfg (AmountKeypress key) s =
     (if listeners s \<and> \<not> amount_disabled s \<and> key = ''Enter''
      then handleConversionRequest cfg s else s)"
| "dispatch cfg (AmountInput v) s =
     (if amount_disabled s then s
      else if listeners s then handleAmountInput cfg (s\<lparr>amount_value := v\<rparr>)
      else s\<lparr>amount_value := v\<rparr>)"
| "dispatch cfg (FromCurrencyChange v) s =
     (if fromCurrency_disabled s \<or> v \<notin> set (fromCurrency_options s) then s
      else if listeners s then resetResults (s\<lparr>fromCurrency_value := v\<rparr>)
      else s\<lparr>fromCurrency_value := v\<rparr>)"
| "dispatch cfg (ToCurrencyChange v) s =
     (if toCurrency_disabled s \<or> v \<notin> set (toCurrency_options s) then s
      else if listeners s then resetResults (s\<lparr>toCurrency_value := v\<rparr>)
      else s\<lparr>toCurrency_value := v\<rparr>)"
| "dispatch cfg (FetchSettled i out) s = settle cfg i out s"
| "dispatch cfg (TimePasses d) s = advance (clock s + d) s"
| "dispatch cfg (WindowError e) s =
     displayError cfg ''An unexpected error occurred. Please refresh the page.''
       (console_error ''Uncaught error:'' e s)"
| "dispatch cfg (UnhandledRejection e) s =
     displayError cfg ''An unexpected error occurred. Please try again.''
       (console_error ''Unhandled promise rejection:'' e s)"

text \<open>The page as the script finds it: \<^verbatim>\<open>AppState\<close> as initialised at lines 53--58, nothing
  pending. The states of a session are those reached from there by \<^verbatim>\<open>initializeApp\<close> and
  any sequence of events.\<close>

definition fresh_page :: "state \<Rightarrow> bool" where
  "fresh_page s \<longleftrightarrow>
     currencies s = Some [] \<and> \<not> isLoading s \<and> currentExchangeRate s = None \<and>
     errorTimeout s = None \<and> \<not> listeners s \<and> timers s = [] \<and> next_timer s = 1 \<and>
     inflight s = [] \<and> console s = []"

inductive reachable :: "config \<Rightarrow> state \<Rightarrow> bool" for cfg :: config where
  start: "fresh_page s \<Longrightarrow> reachable cfg (initializeApp cfg s)"
| step: "reachable cfg s \<Longrightarrow> reachable cfg (dispatch cfg e s)"

section \<open>What the properties are stated with\<close>

subsection \<open>Texts\<close>

text \<open>The number of decimal points of a text, and the digits after the first one (none when
  there is no point).\<close>

definition points :: "string \<Rightarrow> nat" where
  "points s = length (filter (\<lambda>c. c = CHR ''.'') s)"

definition fraction_digits :: "string \<Rightarrow> string" where
  "fraction_digits s = (case dropWhile (\<lambda>c. c \<noteq> CHR ''.'') s of [] \<Rightarrow> [] | _ # r \<Rightarrow> r)"

text \<open>A text that is a decimal numeral as a whole.\<close>

definition numeric_text :: "string \<Rightarrow> bool" where
  "numeric_text s =
     (case str_decimal_literal s of None \<Rightarrow> False | Some (neg, lit, rest) \<Rightarrow> rest = [])"

subsection \<open>Pending timers and requests\<close>

text \<open>The pending auto-hide timers, and what holds of them throughout: the handle kept in
  \<^verbatim>\<open>AppState.errorTimeout\<close> is that of the only pending auto-hide timer, and with no handle
  kept none is pending.\<close>

definition hide_timers :: "state \<Rightarrow> timer list" where
  "hide_timers s = filter (\<lambda>t. callback t = HideErrorCb) (timers s)"

definition timer_inv :: "state \<Rightarrow> bool" where
  "timer_inv s \<longleftrightarrow>
     0 < next_timer s \<and>
     (case errorTimeout s of
        None \<Rightarrow> hide_timers s = []
      | Some i \<Rightarrow> i \<noteq> 0 \<and> (\<exists>d. hide_timers s = [Timer i d HideErrorCb]))"

text \<open>A request is in flight exactly while \<^verbatim>\<open>isLoading\<close> is set, there is never more than one,
  and the four controls are disabled exactly then.\<close>

definition loading_inv :: "state \<Rightarrow> bool" where
  "loading_inv s \<longleftrightarrow>
     (isLoading s \<longleftrightarrow> inflight s \<noteq> []) \<and> length (inflight s) \<le> 1 \<and>
     convertBtn_disabled s = isLoading s \<and> amount_disabled s = isLoading s \<and>
     fromCurrency_disabled s = isLoading s \<and> toCurrency_disabled s = isLoading s"

text \<open>What no timer touches.\<close>

definition untimed :: "state \<Rightarrow> state \<Rightarrow> bool" where
  "untimed s s' \<longleftrightarrow>
     isLoading s' = isLoading s \<and> inflight s' = inflight s \<and>
     convertBtn_disabled s' = convertBtn_disabled s \<and> amount_disabled s' = amount_disabled s \<and>
     fromCurrency_disabled s' = fromCurrency_disabled s \<and>
     toCurrency_disabled s' = toCurrency_disabled s \<and> next_timer s' = next_timer s \<and>
     listeners s' = listeners s \<and> currencies s' = currencies s \<and>
     amount_value s' = amount_value s \<and> errorMessage_textContent s' = errorMessage_textContent s"

text \<open>Loading is over and every control is enabled again.\<close>

definition controls_enabled :: "state \<Rightarrow> bool" where
  "controls_enabled s \<longleftrightarrow>
     \<not> isLoading s \<and> \<not> convertBtn_disabled s \<and> \<not> amount_disabled s \<and>
     \<not> fromCurrency_disabled s \<and> \<not> toCurrency_disabled s \<and>
     btnText_textContent s = ''Convert'' \<and> btnLoader_d_none s"

text \<open>What a change of the selection is to leave behind.\<close>

definition results_reset :: "state \<Rightarrow> state \<Rightarrow> bool" where
  "results_reset s s' \<longleftrightarrow>
     resultAmount_textContent s' = ''--'' \<and>
     exchangeRate_textContent s' = ''Exchange Rate: 1 [SOURCE] = [RATE] [TARGET]'' \<and>
     currentExchangeRate s' = None \<and>
     errorMessage_d_none s' \<and> errorTimeout s' = None \<and> hide_timers s' = [] \<and>
     inflight s' = inflight s \<and> amount_value s' = amount_value s \<and>
     currencies s' = currencies s"

text \<open>A request that has failed: no response, a status that is not a success, a body
  that cannot be read, or a payload that does not say \<^verbatim>\<open>success\<close>.\<close>

fun fetch_failed :: "fetch_outcome \<Rightarrow> bool" where
  "fetch_failed NetworkFailure = True"
| "fetch_failed (Response status body) =
     (status < 200 \<or> 299 < status \<or>
      (case body of None \<Rightarrow> True | Some data \<Rightarrow> result data \<noteq> ''success''))"

subsection \<open>The validator as the specification words it\<close>







subsection \<open>Pages of an example session\<close>

text \<open>A page with empty fields, nothing selected and nothing pending; two catalogs, the
  second one without the euro.\<close>

definition blank_page :: state where
  "blank_page =
     \<lparr> currencies = Some [], isLoading = False, currentExchangeRate = None, errorTimeout = None,
       amount_value = [], amount_disabled = False,
       fromCurrency_value = [], fromCurrency_disabled = False, fromCurrency_options = [],
       toCurrency_value = [], toCurrency_disabled = False, toCurrency_options = [],
       convertBtn_disabled = False, btnText_textContent = ''Convert'', btnLoader_d_none = True,
       errorMessage_textContent = [], errorMessage_d_none = True,
       resultAmount_textContent = ''--'', resultAmount_animation = [],
       exchangeRate_textContent = ''Exchange Rate: 1 [SOURCE] = [RATE] [TARGET]'',
       focused = None, listeners = False, timers = [], next_timer = 1, clock = 0,
       inflight = [], console = [] \<rparr>"

definition demo_catalog :: payload where
  "demo_catalog = \<lparr> result = ''success'', error_type = None,
      conversion_rates = Some [(''EUR'', number_value (9 / 10)), (''USD'', Fin 1)] \<rparr>"

definition usd_only :: payload where
  "usd_only = \<lparr> result = ''success'', error_type = None, conversion_rates = Some [(''USD'', Fin 1)] \<rparr>"

text \<open>The session: the catalog arrives; then either a click on Convert with the amount still
  empty, or the amount 100 is typed, Convert is clicked, and the rate arrives.\<close>

definition loaded_page :: state where
  "loaded_page = dispatch CONFIG (FetchSettled 0 (Response 200 (Some demo_catalog)))
                   (initializeApp CONFIG blank_page)"

definition error_page :: state where
  "error_page = dispatch CONFIG ConvertClick loaded_page"

definition typed_page :: state where
  "typed_page = dispatch CONFIG (AmountInput ''100'') loaded_page"

definition loading_page :: state where
  "loading_page = dispatch CONFIG ConvertClick typed_page"

definition converted_page :: state where
  "converted_page =
     dispatch CONFIG (FetchSettled 0 (Response 200 (Some demo_catalog))) loading_page"

text \<open>Another session: the request of the catalog fails.\<close>

definition failed_page :: state where
  "failed_page = dispatch CONFIG (FetchSettled 0 NetworkFailure) (initializeApp CONFIG blank_page)"

section \<open>Properties\<close>

subsection \<open>The amount filter\<close>

lemma js_split_nonempty: "js_split sep s \<noteq> []"
  by (induction s) (auto split: list.splits)

lemma points_append: "points (a @ b) = points a + points b"
  by (simp add: points_def)

lemma points_zero: "CHR ''.'' \<notin> set s \<Longrightarrow> points s = 0"
  by (induction s) (auto simp: points_def)

lemma points_point: "points (CHR ''.'' # b) = Suc (points b)"
  by (simp add: points_def)

lemma fraction_digits_append:
  "CHR ''.'' \<notin> set a \<Longrightarrow> fraction_digits (a @ ''.'' @ b) = b"
  by (induction a) (auto simp: fraction_digits_def)

lemma fraction_digits_point: "CHR ''.'' \<notin> set a \<Longrightarrow> fraction_digits (a @ CHR ''.'' # b) = b"
  using fraction_digits_append [of a b] by simp

lemma points_filter: "points (filter (\<lambda>c. is_digit c \<or> c = CHR ''.'') v) = points v"
  by (induction v) (auto simp: points_def)

lemma js_split_length: "length (js_split (CHR ''.'') s) = Suc (points s)"
proof (induction s)
  case Nil
  then show ?case by (simp add: points_def)
next
  case (Cons c cs)
  then show ?case
    using js_split_nonempty [of "CHR ''.''" cs]
    by (cases "js_split (CHR ''.'') cs") (auto simp: points_def)
qed

lemma js_split_parts: "p \<in> set (js_split sep s) \<Longrightarrow> sep \<notin> set p \<and> set p \<subseteq> set s"
proof (induction s arbitrary: p)
  case Nil
  then show ?case by simp
next
  case (Cons c cs)
  obtain q qs where q: "js_split sep cs = q # qs"
    using js_split_nonempty [of sep cs] by (cases "js_split sep cs") auto
  show ?case
  proof (cases "c = sep")
    case True
    with Cons show ?thesis by auto
  next
    case False
    with Cons.prems q have "p = c # q \<or> p \<in> set qs" by simp
    then show ?thesis
    proof
      assume "p = c # q"
      moreover have "sep \<notin> set q \<and> set q \<subseteq> set cs" using Cons.IH [of q] q by simp
      ultimately show ?thesis using False by auto
    next
      assume "p \<in> set qs"
      then have "sep \<notin> set p \<and> set p \<subseteq> set cs" using Cons.IH [of p] q by simp
      then show ?thesis by auto
    qed
  qed
qed

lemma js_split_single: "js_split sep s = [p] \<Longrightarrow> s = p"
proof (induction s arbitrary: p)
  case Nil
  then show ?case by simp
next
  case (Cons c cs)
  then show ?case
    using js_split_nonempty [of sep cs] by (auto split: if_splits list.splits)
qed

lemma js_split_pair: "js_split sep s = [p, q] \<Longrightarrow> s = p @ sep # q"
proof (induction s arbitrary: p)
  case Nil
  then show ?case by simp
next
  case (Cons c cs)
  show ?case
  proof (cases "c = sep")
    case True
    with Cons.prems have "p = []" "js_split sep cs = [q]" by simp_all
    with True js_split_single [of sep cs q] show ?thesis by simp
  next
    case False
    with Cons.prems obtain p' where "js_split sep cs = [p', q]" "p = c # p'"
      by (auto split: list.splits)
    with Cons.IH [of p'] show ?thesis by simp
  qed
qed

text \<open>What the filter does achieve: its result has digits and points only, and one point at
  most; and the limit on the digits after the point holds for a text with one point at
  most.\<close>

lemma sanitized_amount_shape:
  "(\<forall>c\<in>set (sanitized_amount cfg v). is_digit c \<or> c = CHR ''.'') \<and>
   points (sanitized_amount cfg v) \<le> 1"
proof -
  let ?v1 = "filter (\<lambda>c. is_digit c \<or> c = CHR ''.'') v"
  let ?parts = "js_split (CHR ''.'') ?v1"
  have part: "p \<in> set ?parts \<Longrightarrow> CHR ''.'' \<notin> set p \<and> (\<forall>c\<in>set p. is_digit c)" for p
    using js_split_parts [of p "CHR ''.''" ?v1] by auto
  obtain p0 ps where ps: "?parts = p0 # ps"
    using js_split_nonempty [of "CHR ''.''" ?v1] by (cases ?parts) auto
  have p0: "CHR ''.'' \<notin> set p0" "\<forall>c\<in>set p0. is_digit c" using part [of p0] ps by simp_all
  have rest: "CHR ''.'' \<notin> set (concat ps)" "\<forall>c\<in>set (concat ps). is_digit c"
    using part ps by auto
  show ?thesis
  proof (cases ps)
    case Nil
    with ps have "sanitized_amount cfg v = ?v1" by (simp add: sanitized_amount_def)
    moreover from Nil ps have "?v1 = p0" using js_split_single by blast
    ultimately show ?thesis using p0 by (simp add: points_zero)
  next
    case (Cons p1 qs)
    have p1: "CHR ''.'' \<notin> set p1" "\<forall>c\<in>set p1. is_digit c" using part [of p1] ps Cons by simp_all
    have tk: "CHR ''.'' \<notin> set (take n p1)" "\<forall>c\<in>set (take n p1). is_digit c" for n
      using p1 by (auto dest: in_set_takeD)
    have v1: "qs = [] \<Longrightarrow> ?v1 = p0 @ ''.'' @ p1"
      using js_split_pair [of "CHR ''.''" ?v1 p0 p1] ps Cons by simp
    have shape: "CHR ''.'' \<notin> set b \<Longrightarrow> \<forall>c\<in>set b. is_digit c \<Longrightarrow>
        (\<forall>c\<in>set (p0 @ ''.'' @ b). is_digit c \<or> c = CHR ''.'') \<and> points (p0 @ ''.'' @ b) \<le> 1" for b
      using p0 by (auto simp: points_append points_zero points_point)
    have "sanitized_amount cfg v = p0 @ ''.'' @ take (DECIMAL_PLACES cfg) p1 \<or>
          sanitized_amount cfg v = p0 @ ''.'' @ concat (p1 # qs)"
      using ps Cons v1 by (cases qs) (auto simp: sanitized_amount_def Let_def)
    then show ?thesis
      using shape [of "take (DECIMAL_PLACES cfg) p1"] shape [of "concat (p1 # qs)"] tk rest Cons
      by auto
  qed
qed

lemma sanitized_amount_limit:
  assumes "points v \<le> 1"
  shows "length (fraction_digits (sanitized_amount cfg v)) \<le> DECIMAL_PLACES cfg"
proof -
  let ?v1 = "filter (\<lambda>c. is_digit c \<or> c = CHR ''.'') v"
  let ?parts = "js_split (CHR ''.'') ?v1"
  have len: "length ?parts \<le> 2"
    using assms by (simp add: js_split_length points_filter)
  obtain p0 ps where ps: "?parts = p0 # ps"
    using js_split_nonempty [of "CHR ''.''" ?v1] by (cases ?parts) auto
  have p0: "CHR ''.'' \<notin> set p0" using js_split_parts [of p0 "CHR ''.''" ?v1] ps by simp
  show ?thesis
  proof (cases ps)
    case Nil
    with ps have "sanitized_amount cfg v = ?v1" by (simp add: sanitized_amount_def)
    moreover from Nil ps have "?v1 = p0" using js_split_single by blast
    moreover have "fraction_digits p0 = []"
      using p0 by (induction p0) (auto simp: fraction_digits_def)
    ultimately show ?thesis by simp
  next
    case (Cons p1 qs)
    with len ps have qs: "qs = []" by simp
    with ps Cons have v1: "?v1 = p0 @ ''.'' @ p1"
      using js_split_pair [of "CHR ''.''" ?v1 p0 p1] by simp
    have "sanitized_amount cfg v =
            p0 @ ''.'' @ (if p1 \<noteq> [] \<and> DECIMAL_PLACES cfg < length p1
                          then take (DECIMAL_PLACES cfg) p1 else p1)"
      using ps Cons qs v1 by (simp add: sanitized_amount_def Let_def)
    then show ?thesis using p0 by (auto simp: fraction_digits_point)
  qed
qed

text \<open>
  C1. The filter is meant to leave at most \<^verbatim>\<open>DECIMAL_PLACES\<close> digits after the point (the
  source's comment: ``Limit to 2 decimal places''). With two points in the text the limit is
  tested on the second part of the split only, while the parts after it have already been
  joined to it: the pasted text \<^verbatim>\<open>1.2.345\<close> becomes \<^verbatim>\<open>1.2345\<close>, four digits after the
  point under the default limit of two.
\<close>

theorem sanitized_amount_exceeds_limit:
  "sanitized_amount CONFIG ''1.2.345'' = ''1.2345'' \<and>
   length (fraction_digits (sanitized_amount CONFIG ''1.2.345'')) = 4 \<and>
   DECIMAL_PLACES CONFIG = 2"
  by (simp add: sanitized_amount_def CONFIG_def is_digit_def fraction_digits_def)

subsection \<open>Numbers and their texts\<close>



lemma decimal_digits_nonempty: "decimal_digits n \<noteq> []"
  by (simp add: decimal_digits.simps [of n])




lemma trim_no_leading_space: "dropWhile is_js_space (trim s) = trim s"
proof -
  let ?b = "dropWhile is_js_space s"
  let ?c = "rev (dropWhile is_js_space (rev ?b))"
  have b: "?b = ?c @ rev (takeWhile is_js_space (rev ?b))"
    by (metis rev_append rev_rev_ident takeWhile_dropWhile_id)
  show ?thesis
  proof (cases "?c = []")
    case True
    then show ?thesis by (simp only: trim_def dropWhile.simps)
  next
    case False
    with b have "hd ?c = hd ?b" by (metis hd_append2)
    moreover from False b have "?b \<noteq> []" by (metis Nil_is_append_conv)
    ultimately have "\<not> is_js_space (hd ?c)" using hd_dropWhile [of is_js_space s] by simp
    then show ?thesis unfolding trim_def by (simp add: dropWhile_eq_self_iff)
  qed
qed

lemma parseFloat_trim:
  "parseFloat (trim s) =
     (case str_decimal_literal (trim s) of
        None \<Rightarrow> NaN
      | Some (neg, lit, rest) \<Rightarrow> literal_value neg lit)"
  by (simp add: parseFloat_def trim_no_leading_space)

lemma literal_value_not_NaN: "\<not> js_isNaN (literal_value neg lit)"
  by (cases lit) (simp_all add: number_value_def Let_def)



lemma eval_parseFloat_NaN: "parseFloat ''NaN'' = NaN"
  by code_simp




subsection \<open>What the display functions change\<close>

lemma filter_conj_single:
  assumes "filter P ts = [t]" and "\<not> Q t"
  shows "filter (\<lambda>x. Q x \<and> P x) ts = []"
proof -
  have "filter (\<lambda>x. Q x \<and> P x) ts = filter Q (filter P ts)"
    by (simp add: conj_commute)
  with assms show ?thesis by simp
qed

lemma filter_conj_empty:
  "filter P ts = [] \<Longrightarrow> filter (\<lambda>x. P x \<and> Q x) ts = []"
  "filter P ts = [] \<Longrightarrow> filter (\<lambda>x. Q x \<and> P x) ts = []"
  by (induction ts) (auto split: if_splits)

lemma hideError_effect:
  assumes "timer_inv s"
  shows "hide_timers (hideError s) = []" and "errorTimeout (hideError s) = None"
    and "errorMessage_d_none (hideError s)" and "next_timer (hideError s) = next_timer s"
    and "timer_inv (hideError s)"
  using assms
  by (auto simp: timer_inv_def hideError_def hide_timers_def clearTimeout_def filter_conj_single
           split: option.splits)

lemma displayError_effect:
  assumes "timer_inv s"
  shows "hide_timers (displayError cfg m s) =
           [Timer (next_timer s) (clock s + ERROR_DISPLAY_DURATION cfg) HideErrorCb]"
    and "errorTimeout (displayError cfg m s) = Some (next_timer s)"
    and "next_timer (displayError cfg m s) = Suc (next_timer s)"
    and "\<not> errorMessage_d_none (displayError cfg m s)"
    and "errorMessage_textContent (displayError cfg m s) = m"
    and "timer_inv (displayError cfg m s)"
  using assms
  by (auto simp: timer_inv_def displayError_def hide_timers_def clearTimeout_def setTimeout_def
                 filter_conj_single split: option.splits)

lemma hideError_fields:
  "resultAmount_textContent (hideError s) = resultAmount_textContent s"
  "exchangeRate_textContent (hideError s) = exchangeRate_textContent s"
  "currentExchangeRate (hideError s) = currentExchangeRate s"
  "inflight (hideError s) = inflight s"
  "amount_value (hideError s) = amount_value s"
  "currencies (hideError s) = currencies s"
  "fromCurrency_value (hideError s) = fromCurrency_value s"
  "toCurrency_value (hideError s) = toCurrency_value s"
  "isLoading (hideError s) = isLoading s"
  "clock (hideError s) = clock s"
  by (simp_all add: hideError_def clearTimeout_def Let_def split: option.splits)

lemma displayError_fields:
  "clock (displayError cfg m s) = clock s"
  "inflight (displayError cfg m s) = inflight s"
  "isLoading (displayError cfg m s) = isLoading s"
  by (simp_all add: displayError_def clearTimeout_def setTimeout_def Let_def split: option.splits)

lemma displayError_shows:
  "\<not> errorMessage_d_none (displayError cfg m s)"
  "errorMessage_textContent (displayError cfg m s) = m"
  "resultAmount_textContent (displayError cfg m s) = resultAmount_textContent s"
  "exchangeRate_textContent (displayError cfg m s) = exchangeRate_textContent s"
  "currentExchangeRate (displayError cfg m s) = currentExchangeRate s"
  "resultAmount_animation (displayError cfg m s) = resultAmount_animation s"
  by (simp_all add: displayError_def clearTimeout_def setTimeout_def Let_def split: option.splits)

lemma clock_hideError: "clock (hideError s) = clock s"
  by (simp add: hideError_def clearTimeout_def Let_def split: option.splits)

lemma inflight_simps:
  "inflight (setLoadingState b s) = inflight s"
  "inflight (console_error l e s) = inflight s"
  "inflight (fst (populateCurrencyDropdowns s)) = inflight s"
  "inflight (fst (setDefaultCurrencies cfg s)) = inflight s"
  "inflight (initialization_failed cfg e s) = inflight s"
  by (simp_all add: setLoadingState_def console_error_def populateCurrencyDropdowns_def
        setDefaultCurrencies_def initialization_failed_def displayError_fields Let_def
      split: option.splits)

lemma controls_enabled_setLoadingState: "controls_enabled (setLoadingState False s)"
  by (simp add: controls_enabled_def setLoadingState_def)

lemma controls_enabled_frame:
  "controls_enabled (displayError cfg m s) = controls_enabled s"
  "controls_enabled (console_error l e s) = controls_enabled s"
  "controls_enabled (s\<lparr>listeners := a\<rparr>) = controls_enabled s"
  "controls_enabled (s\<lparr>focused := b\<rparr>) = controls_enabled s"
  "controls_enabled (fst (setDefaultCurrencies cfg s)) = controls_enabled s"
  by (simp_all add: controls_enabled_def displayError_def clearTimeout_def setTimeout_def Let_def
        console_error_def setDefaultCurrencies_def split: option.splits)

lemma displayConversionResults_inflight:
  "inflight (fst (displayConversionResults cfg c r f t s)) = inflight s"
  by (simp add: displayConversionResults_def Let_def setTimeout_def split: sum.splits js_value.splits)

lemma conversion_rejected_shows:
  "\<not> errorMessage_d_none (conversion_rejected cfg e s)"
  "errorMessage_textContent (conversion_rejected cfg e s) = ''Conversion failed. Please try again.''"
  "resultAmount_textContent (conversion_rejected cfg e s) = resultAmount_textContent s"
  "exchangeRate_textContent (conversion_rejected cfg e s) = exchangeRate_textContent s"
  "currentExchangeRate (conversion_rejected cfg e s) = currentExchangeRate s"
  "resultAmount_animation (conversion_rejected cfg e s) = resultAmount_animation s"
  by (simp_all add: conversion_rejected_def setLoadingState_def console_error_def displayError_shows)

lemma displayError_timers:
  "\<exists>i. timers (displayError cfg m s) =
         filter (\<lambda>t. tid t \<noteq> i) (timers s) @
         [Timer (next_timer s) (clock s + ERROR_DISPLAY_DURATION cfg) HideErrorCb] \<or>
       timers (displayError cfg m s) =
         timers s @ [Timer (next_timer s) (clock s + ERROR_DISPLAY_DURATION cfg) HideErrorCb]"
  by (auto simp: displayError_def clearTimeout_def setTimeout_def Let_def split: option.splits)

lemma conversion_rejected_no_animation:
  "length (filter (\<lambda>t. callback t = AnimationCb) (timers (conversion_rejected cfg e s)))
     \<le> length (filter (\<lambda>t. callback t = AnimationCb) (timers s))"
proof -
  have t: "timers (conversion_rejected cfg e s) =
           timers (displayError cfg ''Conversion failed. Please try again.'' s)"
    by (simp add: conversion_rejected_def setLoadingState_def console_error_def)
  have "length (filter P (filter Q ts)) \<le> length (filter P ts)" for P Q and ts :: "timer list"
    by (induction ts) auto
  with displayError_timers [of cfg "''Conversion failed. Please try again.''" s] show ?thesis
    unfolding t by auto
qed

lemma conversion_rejected_idle:
  "controls_enabled (conversion_rejected cfg e s)" "inflight (conversion_rejected cfg e s) = inflight s"
  by (simp_all add: conversion_rejected_def controls_enabled_setLoadingState)
     (simp add: setLoadingState_def console_error_def displayError_fields)

lemma conversion_settled_idle:
  "controls_enabled (conversion_settled cfg a f t out s) \<and>
   inflight (conversion_settled cfg a f t out s) = inflight s"
proof (cases "fetchExchangeRate t out")
  case (Inl e)
  then show ?thesis by (simp add: conversion_settled_def conversion_rejected_idle)
next
  case (Inr r)
  show ?thesis
  proof (cases "toFixed (js_times a (ToNumber r)) (DECIMAL_PLACES cfg)")
    case (Inl e)
    with Inr show ?thesis
      by (simp add: conversion_settled_def conversion_resolved_def conversion_rejected_idle)
  next
    case c: (Inr c)
    obtain s1 eo where d: "displayConversionResults cfg c r f t s = (s1, eo)"
      by (cases "displayConversionResults cfg c r f t s")
    with displayConversionResults_inflight [of cfg c r f t s] have "inflight s1 = inflight s" by simp
    with Inr c d show ?thesis
      by (cases eo)
         (simp_all add: conversion_settled_def conversion_resolved_def conversion_rejected_idle
            controls_enabled_setLoadingState, simp add: setLoadingState_def)
  qed
qed

lemma initialization_failed_idle:
  "controls_enabled (initialization_failed cfg e s) = controls_enabled s"
  by (simp add: initialization_failed_def controls_enabled_frame)

lemma catalog_rejected_idle:
  "controls_enabled (catalog_rejected cfg e s)" "inflight (catalog_rejected cfg e s) = inflight s"
  by (simp_all add: catalog_rejected_def Let_def initialization_failed_idle
        controls_enabled_setLoadingState inflight_simps displayError_fields)

lemma catalog_settled_idle:
  "controls_enabled (catalog_settled cfg out s) \<and> inflight (catalog_settled cfg out s) = inflight s"
proof (cases "response_json out")
  case (Inl e)
  then show ?thesis by (simp add: catalog_settled_def catalog_rejected_idle)
next
  case (Inr data)
  let ?s1 = "s\<lparr>currencies := conversion_rates data\<rparr>"
  obtain s2 eo where p: "populateCurrencyDropdowns ?s1 = (s2, eo)"
    by (cases "populateCurrencyDropdowns ?s1")
  with inflight_simps(3) [of ?s1] have i2: "inflight s2 = inflight s" by simp
  let ?s4 = "(setLoadingState False s2)\<lparr>listeners := True\<rparr>"
  obtain s5 eo' where d: "setDefaultCurrencies cfg ?s4 = (s5, eo')"
    by (cases "setDefaultCurrencies cfg ?s4")
  with inflight_simps(4) [of cfg ?s4] controls_enabled_frame(5) [of cfg ?s4]
  have s5: "inflight s5 = inflight s" "controls_enabled s5"
    using i2 by (simp_all add: inflight_simps controls_enabled_frame controls_enabled_setLoadingState)
  show ?thesis
  proof (cases "result data = ''success''")
    case False
    with Inr show ?thesis by (simp add: catalog_settled_def catalog_rejected_idle)
  next
    case True
    show ?thesis
    proof (cases eo)
      case (Some e)
      with Inr True p i2 show ?thesis by (simp add: catalog_settled_def catalog_rejected_idle)
    next
      case None
      with Inr True p d s5 show ?thesis
        by (cases eo')
           (simp_all add: catalog_settled_def Let_def controls_enabled_frame
              initialization_failed_idle inflight_simps)
    qed
  qed
qed

lemma validateInputs_loading_fields:
  "isLoading (snd (validateInputs cfg s)) = isLoading s"
  "inflight (snd (validateInputs cfg s)) = inflight s"
  by (simp_all add: validateInputs_def Let_def displayError_fields)

subsection \<open>The passing of time\<close>

lemma earliest_mem: "earliest ts = Some t \<Longrightarrow> t \<in> set ts"
  by (induction ts arbitrary: t) (auto split: option.splits if_splits)

lemma next_due_mem: "next_due T ts = Some t \<Longrightarrow> t \<in> set ts \<and> due t \<le> T"
  using earliest_mem [of "filter (\<lambda>t. due t \<le> T) ts" t] by (simp add: next_due_def)

lemma earliest_None: "earliest ts = None \<longleftrightarrow> ts = []"
  by (cases ts) (auto split: option.splits)

lemma next_due_None: "next_due T ts = None \<longleftrightarrow> (\<forall>t\<in>set ts. T < due t)"
  by (auto simp: next_due_def earliest_None filter_empty_conv not_le)

lemma fire_animation:
  "callback t = AnimationCb \<Longrightarrow> fire t s = s\<lparr>resultAmount_animation := ''slideDown 0.3s ease''\<rparr>"
  by (simp add: fire_def)

lemma untimed_hideError: "untimed s (hideError s)"
  by (simp add: untimed_def hideError_def clearTimeout_def Let_def split: option.splits)

lemma untimed_fire: "untimed s (fire t s)"
  using untimed_hideError [of s]
  by (cases "callback t") (simp_all add: fire_def untimed_def)

lemma untimed_advance: "untimed s (advance T s)"
proof (induction T s rule: advance.induct)
  case (1 T s)
  show ?case
  proof (cases "next_due T (timers s)")
    case None
    then show ?thesis by (simp add: advance.simps [of T s] untimed_def)
  next
    case (Some t)
    let ?s = "s\<lparr>timers := remove1 t (timers s), clock := max (clock s) (due t)\<rparr>"
    have "untimed ?s (advance T (fire t ?s))"
      using "1.IH" [OF Some] untimed_fire [of ?s t] by (simp add: untimed_def)
    with Some show ?thesis by (simp add: advance.simps [of T s] untimed_def)
  qed
qed

lemma clock_advance: "clock (advance T s) = max (clock s) T"
proof (induction T s rule: advance.induct)
  case (1 T s)
  show ?case
  proof (cases "next_due T (timers s)")
    case None
    then show ?thesis by (simp add: advance.simps [of T s])
  next
    case (Some t)
    then have "due t \<le> T" by (simp add: next_due_mem)
    moreover have "clock (fire t (s\<lparr>timers := remove1 t (timers s), clock := max (clock s) (due t)\<rparr>))
                    = max (clock s) (due t)"
      by (cases "callback t") (simp_all add: fire_def clock_hideError)
    ultimately show ?thesis
      using "1.IH" [OF Some] Some by (simp add: advance.simps [of T s])
  qed
qed

text \<open>While no auto-hide timer is due, the passing of time leaves the message alone.\<close>

lemma advance_not_due:
  assumes "\<forall>t\<in>set (hide_timers s). T < due t"
  shows "errorMessage_d_none (advance T s) = errorMessage_d_none s \<and>
         errorTimeout (advance T s) = errorTimeout s \<and>
         hide_timers (advance T s) = hide_timers s"
  using assms
proof (induction T s rule: advance.induct)
  case (1 T s)
  show ?case
  proof (cases "next_due T (timers s)")
    case None
    then show ?thesis by (simp add: advance.simps [of T s] hide_timers_def)
  next
    case (Some t)
    let ?s = "s\<lparr>timers := remove1 t (timers s), clock := max (clock s) (due t)\<rparr>"
    from Some have t: "t \<in> set (timers s)" "due t \<le> T" by (simp_all add: next_due_mem)
    with "1.prems" have cb: "callback t = AnimationCb"
      by (cases "callback t") (auto simp: hide_timers_def)
    then have h: "hide_timers (fire t ?s) = hide_timers s"
      by (simp add: fire_animation hide_timers_def filter_remove1 remove1_idem)
    with "1.prems" have "\<forall>u\<in>set (hide_timers (fire t ?s)). T < due u" by simp
    from "1.IH" [OF Some this] h cb Some show ?thesis
      by (simp add: advance.simps [of T s] fire_animation)
  qed
qed

text \<open>Once the auto-hide timer is due, the passing of time hides the message.\<close>

lemma advance_due:
  assumes "hide_timers s = [Timer i D HideErrorCb]" and "errorTimeout s = Some i" and "i \<noteq> 0"
    and "D \<le> T"
  shows "errorMessage_d_none (advance T s) \<and> errorTimeout (advance T s) = None \<and>
         hide_timers (advance T s) = []"
  using assms
proof (induction T s rule: advance.induct)
  case (1 T s)
  have "Timer i D HideErrorCb \<in> set (hide_timers s)" using "1.prems" by simp
  then have "Timer i D HideErrorCb \<in> set (timers s)" by (simp add: hide_timers_def)
  moreover have "due (Timer i D HideErrorCb) \<le> T" using "1.prems" by simp
  ultimately have "next_due T (timers s) \<noteq> None"
    unfolding next_due_None by (meson not_less)
  then obtain t where Some: "next_due T (timers s) = Some t" by auto
  let ?s = "s\<lparr>timers := remove1 t (timers s), clock := max (clock s) (due t)\<rparr>"
  from Some have t: "t \<in> set (timers s)" by (simp add: next_due_mem)
  show ?case
  proof (cases "callback t")
    case AnimationCb
    then have "hide_timers (fire t ?s) = hide_timers s" "errorTimeout (fire t ?s) = errorTimeout s"
      by (simp_all add: fire_animation hide_timers_def filter_remove1 remove1_idem)
    with "1.IH" [OF Some] "1.prems" Some show ?thesis by (simp add: advance.simps [of T s])
  next
    case HideErrorCb
    with t have "t \<in> set (hide_timers s)" by (simp add: hide_timers_def)
    with "1.prems" have teq: "t = Timer i D HideErrorCb" by simp
    then have "filter (\<lambda>t. callback t = HideErrorCb) (remove1 t (timers s)) = []"
      using "1.prems" by (simp add: filter_remove1 hide_timers_def)
    with "1.prems" HideErrorCb
    have f: "errorMessage_d_none (fire t ?s)" "errorTimeout (fire t ?s) = None"
        "hide_timers (fire t ?s) = []"
      by (simp_all add: fire_def hideError_def clearTimeout_def hide_timers_def filter_conj_empty)
    then have "\<forall>u\<in>set (hide_timers (fire t ?s)). T < due u" by simp
    from advance_not_due [OF this] f Some show ?thesis by (simp add: advance.simps [of T s])
  qed
qed

subsection \<open>The timers of a session\<close>

lemma timer_inv_frame:
  "next_timer s' = next_timer s \<Longrightarrow> errorTimeout s' = errorTimeout s \<Longrightarrow> timers s' = timers s
   \<Longrightarrow> timer_inv s' = timer_inv s"
  by (simp add: timer_inv_def hide_timers_def cong: option.case_cong)

lemma timer_inv_hide_frame:
  "timer_inv s \<Longrightarrow> next_timer s \<le> next_timer s' \<Longrightarrow> errorTimeout s' = errorTimeout s \<Longrightarrow>
   hide_timers s' = hide_timers s \<Longrightarrow> timer_inv s'"
  by (auto simp: timer_inv_def split: option.splits)

lemma timer_inv_setLoadingState [simp]: "timer_inv (setLoadingState b s) = timer_inv s"
  by (rule timer_inv_frame) (simp_all add: setLoadingState_def)

lemma timer_inv_console_error [simp]: "timer_inv (console_error l e s) = timer_inv s"
  by (rule timer_inv_frame) (simp_all add: console_error_def)

lemma timer_inv_updates [simp]:
  "timer_inv (s\<lparr>focused := a\<rparr>) = timer_inv s"
  "timer_inv (s\<lparr>inflight := b\<rparr>) = timer_inv s"
  "timer_inv (s\<lparr>listeners := c\<rparr>) = timer_inv s"
  "timer_inv (s\<lparr>currencies := d\<rparr>) = timer_inv s"
  "timer_inv (s\<lparr>amount_value := e\<rparr>) = timer_inv s"
  "timer_inv (s\<lparr>fromCurrency_value := f\<rparr>) = timer_inv s"
  "timer_inv (s\<lparr>toCurrency_value := g\<rparr>) = timer_inv s"
  "timer_inv (s\<lparr>clock := h\<rparr>) = timer_inv s"
  "timer_inv (s\<lparr>resultAmount_animation := k\<rparr>) = timer_inv s"
  "timer_inv (s\<lparr>resultAmount_textContent := l\<rparr>) = timer_inv s"
  by (simp_all add: timer_inv_def hide_timers_def cong: option.case_cong)

lemma timer_inv_populate [simp]: "timer_inv (fst (populateCurrencyDropdowns s)) = timer_inv s"
  by (rule timer_inv_frame) (simp_all add: populateCurrencyDropdowns_def Let_def split: option.splits)

lemma timer_inv_setDefault [simp]: "timer_inv (fst (setDefaultCurrencies cfg s)) = timer_inv s"
  by (rule timer_inv_frame) (simp_all add: setDefaultCurrencies_def Let_def split: option.splits)

lemma timer_inv_initialization_failed:
  "timer_inv s \<Longrightarrow> timer_inv (initialization_failed cfg e s)"
  by (simp add: initialization_failed_def displayError_effect)

lemma timer_inv_catalog_rejected: "timer_inv s \<Longrightarrow> timer_inv (catalog_rejected cfg e s)"
  by (simp add: catalog_rejected_def Let_def displayError_effect timer_inv_initialization_failed)

lemma timer_inv_displayConversionResults:
  "timer_inv s \<Longrightarrow> timer_inv (fst (displayConversionResults cfg a r f t s))"
  by (rule timer_inv_hide_frame [of s])
     (auto simp: displayConversionResults_def hide_timers_def setTimeout_def Let_def
           split: sum.splits js_value.splits)

lemma timer_inv_conversion_rejected:
  "timer_inv s \<Longrightarrow> timer_inv (conversion_rejected cfg e s)"
  by (simp add: conversion_rejected_def displayError_effect)

lemma timer_inv_conversion_resolved:
  assumes "timer_inv s"
  shows "timer_inv (fst (conversion_resolved cfg a f t r s))"
proof (cases "toFixed (js_times a (ToNumber r)) (DECIMAL_PLACES cfg)")
  case (Inl e)
  with assms show ?thesis by (simp add: conversion_resolved_def)
next
  case (Inr c)
  obtain s1 eo where d: "displayConversionResults cfg c r f t s = (s1, eo)"
    by (cases "displayConversionResults cfg c r f t s")
  with timer_inv_displayConversionResults [OF assms, of cfg c r f t] have "timer_inv s1" by simp
  with Inr d show ?thesis by (cases eo) (simp_all add: conversion_resolved_def)
qed

lemma timer_inv_conversion_settled:
  assumes "timer_inv s"
  shows "timer_inv (conversion_settled cfg a f t out s)"
proof (cases "fetchExchangeRate t out")
  case (Inl e)
  with assms show ?thesis by (simp add: conversion_settled_def timer_inv_conversion_rejected)
next
  case (Inr r)
  obtain s1 eo where d: "conversion_resolved cfg a f t r s = (s1, eo)"
    by (cases "conversion_resolved cfg a f t r s")
  with timer_inv_conversion_resolved [OF assms, of cfg a f t r] have "timer_inv s1" by simp
  with Inr d show ?thesis
    by (cases eo) (simp_all add: conversion_settled_def timer_inv_conversion_rejected)
qed

lemma timer_inv_catalog_settled:
  assumes "timer_inv s"
  shows "timer_inv (catalog_settled cfg out s)"
proof (cases "response_json out")
  case (Inl e)
  with assms show ?thesis by (simp add: catalog_settled_def timer_inv_catalog_rejected)
next
  case (Inr data)
  let ?s1 = "s\<lparr>currencies := conversion_rates data\<rparr>"
  obtain s2 eo where p: "populateCurrencyDropdowns ?s1 = (s2, eo)"
    by (cases "populateCurrencyDropdowns ?s1")
  with timer_inv_populate [of ?s1] assms have i2: "timer_inv s2" by simp
  let ?s4 = "(setLoadingState False s2)\<lparr>listeners := True\<rparr>"
  obtain s5 eo' where d: "setDefaultCurrencies cfg ?s4 = (s5, eo')"
    by (cases "setDefaultCurrencies cfg ?s4")
  with timer_inv_setDefault [of cfg ?s4] i2 have i5: "timer_inv s5" by simp
  show ?thesis
  proof (cases "result data = ''success''")
    case False
    with Inr assms show ?thesis by (simp add: catalog_settled_def timer_inv_catalog_rejected)
  next
    case True
    show ?thesis
    proof (cases eo)
      case (Some e)
      with Inr True p i2 show ?thesis by (simp add: catalog_settled_def timer_inv_catalog_rejected)
    next
      case None
      with Inr True p d i5 show ?thesis
        by (cases eo') (simp_all add: catalog_settled_def Let_def timer_inv_initialization_failed)
    qed
  qed
qed

lemma timer_inv_settle: "timer_inv s \<Longrightarrow> timer_inv (settle cfg i out s)"
  by (auto simp: settle_def Let_def timer_inv_catalog_settled timer_inv_conversion_settled
           split: continuation.splits)

lemma timer_inv_validateInputs: "timer_inv s \<Longrightarrow> timer_inv (snd (validateInputs cfg s))"
  by (simp add: validateInputs_def Let_def displayError_effect)

lemma timer_inv_handleConversionRequest:
  assumes "timer_inv s"
  shows "timer_inv (handleConversionRequest cfg s)"
proof -
  obtain ok s1 where v: "validateInputs cfg (hideError s) = (ok, s1)"
    by (cases "validateInputs cfg (hideError s)")
  with timer_inv_validateInputs [of "hideError s" cfg] assms have "timer_inv s1"
    by (simp add: hideError_effect)
  with v show ?thesis by (cases ok) (simp_all add: handleConversionRequest_def Let_def)
qed

lemma timer_inv_handleAmountInput: "timer_inv s \<Longrightarrow> timer_inv (handleAmountInput cfg s)"
  by (simp add: handleAmountInput_def hideError_effect)

lemma timer_inv_resetResults: "timer_inv s \<Longrightarrow> timer_inv (resetResults s)"
proof -
  assume a: "timer_inv s"
  have "timer_inv (s\<lparr>resultAmount_textContent := ''--'',
                  exchangeRate_textContent := ''Exchange Rate: 1 [SOURCE] = [RATE] [TARGET]'',
                  currentExchangeRate := None\<rparr>) = timer_inv s"
    by (rule timer_inv_frame) simp_all
  with a show ?thesis by (simp add: resetResults_def hideError_effect)
qed

lemma timer_inv_fire_step:
  assumes "timer_inv s" and "t \<in> set (timers s)"
  shows "timer_inv (fire t (s\<lparr>timers := remove1 t (timers s), clock := c\<rparr>))"
proof (cases "callback t")
  case AnimationCb
  then have "hide_timers (s\<lparr>timers := remove1 t (timers s), clock := c\<rparr>) = hide_timers s"
    by (simp add: hide_timers_def filter_remove1 remove1_idem)
  with AnimationCb show ?thesis
    by (intro timer_inv_hide_frame [OF assms(1)]) (simp_all add: fire_def hide_timers_def)
next
  case HideErrorCb
  with assms have "t \<in> set (hide_timers s)" by (simp add: hide_timers_def)
  with assms obtain i d where i: "errorTimeout s = Some i" "i \<noteq> 0"
      "hide_timers s = [Timer i d HideErrorCb]" "t = Timer i d HideErrorCb"
    by (auto simp: timer_inv_def split: option.splits)
  then have "filter (\<lambda>t. callback t = HideErrorCb) (remove1 t (timers s)) = []"
    by (simp add: filter_remove1 hide_timers_def)
  with assms i HideErrorCb show ?thesis
    by (simp add: fire_def timer_inv_def hide_timers_def hideError_def clearTimeout_def
          filter_conj_empty)
qed

lemma timer_inv_advance: "timer_inv s \<Longrightarrow> timer_inv (advance T s)"
proof (induction T s rule: advance.induct)
  case (1 T s)
  show ?case
  proof (cases "next_due T (timers s)")
    case None
    with "1.prems" show ?thesis by (simp add: advance.simps [of T s])
  next
    case (Some t)
    then have "t \<in> set (timers s)" by (simp add: next_due_mem)
    with "1.prems" have "timer_inv (fire t (s\<lparr>timers := remove1 t (timers s),
                                              clock := max (clock s) (due t)\<rparr>))"
      by (rule timer_inv_fire_step)
    with "1.IH" [OF Some] Some show ?thesis by (simp add: advance.simps [of T s])
  qed
qed

lemma timer_inv_dispatch: "timer_inv s \<Longrightarrow> timer_inv (dispatch cfg e s)"
  by (cases e)
     (simp_all add: timer_inv_handleConversionRequest timer_inv_handleAmountInput
        timer_inv_resetResults timer_inv_settle timer_inv_advance displayError_effect)

lemma timer_inv_start: "fresh_page s \<Longrightarrow> timer_inv (initializeApp cfg s)"
  by (simp add: fresh_page_def initializeApp_def Let_def timer_inv_def hide_timers_def
        setLoadingState_def)

lemma reachable_timer_inv: "reachable cfg s \<Longrightarrow> timer_inv s"
  by (induction rule: reachable.induct) (simp_all add: timer_inv_start timer_inv_dispatch)

subsection \<open>The requests of a session\<close>

lemma loading_inv_frame:
  "isLoading s' = isLoading s \<Longrightarrow> inflight s' = inflight s \<Longrightarrow>
   convertBtn_disabled s' = convertBtn_disabled s \<Longrightarrow> amount_disabled s' = amount_disabled s \<Longrightarrow>
   fromCurrency_disabled s' = fromCurrency_disabled s \<Longrightarrow>
   toCurrency_disabled s' = toCurrency_disabled s \<Longrightarrow> loading_inv s' = loading_inv s"
  by (simp add: loading_inv_def)

lemma loading_inv_idle: "controls_enabled s \<Longrightarrow> inflight s = [] \<Longrightarrow> loading_inv s"
  by (simp add: loading_inv_def controls_enabled_def)

lemma loading_inv_hideError [simp]: "loading_inv (hideError s) = loading_inv s"
  by (rule loading_inv_frame)
     (simp_all add: hideError_def clearTimeout_def Let_def split: option.splits)

lemma loading_inv_displayError [simp]: "loading_inv (displayError cfg m s) = loading_inv s"
  by (rule loading_inv_frame)
     (simp_all add: displayError_def clearTimeout_def setTimeout_def Let_def split: option.splits)

lemma loading_inv_console_error [simp]: "loading_inv (console_error l e s) = loading_inv s"
  by (rule loading_inv_frame) (simp_all add: console_error_def)

lemma loading_inv_updates [simp]:
  "loading_inv (s\<lparr>focused := a\<rparr>) = loading_inv s"
  "loading_inv (s\<lparr>amount_value := e\<rparr>) = loading_inv s"
  "loading_inv (s\<lparr>fromCurrency_value := f\<rparr>) = loading_inv s"
  "loading_inv (s\<lparr>toCurrency_value := g\<rparr>) = loading_inv s"
  by (simp_all add: loading_inv_def)

lemma loading_inv_validateInputs [simp]:
  "loading_inv (snd (validateInputs cfg s)) = loading_inv s"
  by (simp add: validateInputs_def Let_def)

lemma loading_inv_handleConversionRequest:
  assumes "loading_inv s" and "\<not> isLoading s"
  shows "loading_inv (handleConversionRequest cfg s)"
proof -
  obtain ok s1 where v: "validateInputs cfg (hideError s) = (ok, s1)"
    by (cases "validateInputs cfg (hideError s)")
  have "loading_inv (snd (validateInputs cfg (hideError s)))" using assms(1) by simp
  with v have 1: "loading_inv s1" by simp
  have "inflight s = []" using assms by (simp add: loading_inv_def)
  with validateInputs_loading_fields(2) [of cfg "hideError s"] v have 2: "inflight s1 = []"
    by (simp add: hideError_fields)
  from 1 2 v show ?thesis
    by (cases ok) (simp_all add: handleConversionRequest_def Let_def loading_inv_def setLoadingState_def)
qed

lemma loading_inv_resetResults [simp]: "loading_inv (resetResults s) = loading_inv s"
proof -
  have "loading_inv (s\<lparr>resultAmount_textContent := ''--'',
                  exchangeRate_textContent := ''Exchange Rate: 1 [SOURCE] = [RATE] [TARGET]'',
                  currentExchangeRate := None\<rparr>) = loading_inv s"
    by (rule loading_inv_frame) simp_all
  then show ?thesis by (simp add: resetResults_def)
qed

lemma loading_inv_handleAmountInput [simp]: "loading_inv (handleAmountInput cfg s) = loading_inv s"
  by (simp add: handleAmountInput_def)

lemma loading_inv_advance [simp]: "loading_inv (advance T s) = loading_inv s"
  using untimed_advance [of s T] by (intro loading_inv_frame) (simp_all add: untimed_def)

lemma loading_inv_settle: "loading_inv s \<Longrightarrow> loading_inv (settle cfg i out s)"
proof (cases "i < length (inflight s)")
  case False
  assume "loading_inv s"
  with False show ?thesis by (simp add: settle_def)
next
  case True
  assume "loading_inv s"
  with True have "take i (inflight s) @ drop (Suc i) (inflight s) = []"
    by (simp add: loading_inv_def)
  with True conversion_settled_idle [of cfg _ _ _ out "s\<lparr>inflight := []\<rparr>"]
       catalog_settled_idle [of cfg out "s\<lparr>inflight := []\<rparr>"]
  show ?thesis
    by (auto simp: settle_def Let_def loading_inv_idle split: continuation.splits)
qed

lemma loading_inv_dispatch:
  assumes "loading_inv s"
  shows "loading_inv (dispatch cfg e s)"
proof (cases e)
  case ConvertClick
  show ?thesis
  proof (cases "listeners s \<and> \<not> convertBtn_disabled s")
    case True
    with assms have "\<not> isLoading s" by (auto simp: loading_inv_def)
    with assms True ConvertClick show ?thesis by (simp add: loading_inv_handleConversionRequest)
  next
    case False
    with assms ConvertClick show ?thesis by auto
  qed
next
  case (AmountKeypress k)
  show ?thesis
  proof (cases "listeners s \<and> \<not> amount_disabled s \<and> k = ''Enter''")
    case True
    with assms have "\<not> isLoading s" by (auto simp: loading_inv_def)
    with assms True AmountKeypress show ?thesis by (simp add: loading_inv_handleConversionRequest)
  next
    case False
    with assms AmountKeypress show ?thesis by auto
  qed
qed (use assms in \<open>simp_all add: loading_inv_settle\<close>)

lemma loading_inv_start: "fresh_page s \<Longrightarrow> loading_inv (initializeApp cfg s)"
  by (simp add: fresh_page_def initializeApp_def Let_def loading_inv_def setLoadingState_def)

lemma reachable_loading_inv: "reachable cfg s \<Longrightarrow> loading_inv s"
  by (induction rule: reachable.induct) (simp_all add: loading_inv_start loading_inv_dispatch)

subsection \<open>The example pages\<close>

lemma fresh_blank_page: "fresh_page blank_page"
  by (simp add: fresh_page_def blank_page_def)

lemma reachable_loaded_page: "reachable CONFIG loaded_page"
  unfolding loaded_page_def by (intro reachable.step reachable.start fresh_blank_page)

lemma reachable_error_page: "reachable CONFIG error_page"
  unfolding error_page_def by (intro reachable.step reachable_loaded_page)

lemma reachable_loading_page: "reachable CONFIG loading_page"
  unfolding loading_page_def typed_page_def by (intro reachable.step reachable_loaded_page)

lemma reachable_converted_page: "reachable CONFIG converted_page"
  unfolding converted_page_def by (intro reachable.step reachable_loading_page)

lemma reachable_failed_page: "reachable CONFIG failed_page"
  unfolding failed_page_def by (intro reachable.step reachable.start fresh_blank_page)

lemma loaded_page_eval:
  "loaded_page = blank_page\<lparr>currencies := Some [(''EUR'', Fin (8106479329266893 / 9007199254740992)), (''USD'', Fin 1)],
      fromCurrency_value := ''USD'', toCurrency_value := ''EUR'',
      fromCurrency_options := [''EUR'', ''USD''], toCurrency_options := [''EUR'', ''USD''],
      listeners := True, focused := Some AmountEl\<rparr>"
  by code_simp

lemma error_page_eval:
  "error_page = loaded_page\<lparr>errorMessage_textContent := ''Please enter an amount to convert'',
      errorMessage_d_none := False, errorTimeout := Some 1,
      timers := [Timer 1 5000 HideErrorCb], next_timer := 2\<rparr>"
  by code_simp

lemma loading_page_eval:
  "loading_page = loaded_page\<lparr>amount_value := ''100'', isLoading := True,
      convertBtn_disabled := True, amount_disabled := True, fromCurrency_disabled := True,
      toCurrency_disabled := True, btnText_textContent := ''Converting...'',
      btnLoader_d_none := False,
      inflight := [Request ''https://v6.exchangerate-api.com/v6/5ff4ca04351879ddbe7f83ea/latest/USD''
                     (RateFetch (Fin 100) ''USD'' ''EUR'')]\<rparr>"
  by code_simp

lemma converted_page_eval:
  "converted_page = loaded_page\<lparr>amount_value := ''100'',
      resultAmount_textContent := ''90.00'',
      exchangeRate_textContent := ''Exchange Rate: 1 USD = 0.9000 EUR'',
      currentExchangeRate := Some (Fin (8106479329266893 / 9007199254740992)),
      resultAmount_animation := ''none'',
      timers := [Timer 1 10 AnimationCb], next_timer := 2\<rparr>"
  by code_simp

subsection \<open>The error message\<close>

text \<open>
  C7. In every state of a session at most one auto-hide timer is pending. A message displayed
  at some time stays visible while less than \<^verbatim>\<open>ERROR_DISPLAY_DURATION\<close> has passed and is hidden
  once exactly that much has passed, nothing else happening; a second message displayed
  before then leaves one pending timer only, a fresh one, due a full duration after the
  second message. Time is the clock of the model: a timer fires when the clock reaches the
  time it is due.
\<close>

theorem error_auto_dismiss:
  assumes "reachable cfg s"
  shows "length (hide_timers s) \<le> 1 \<and>
         (let s1 = displayError cfg m s; D = ERROR_DISPLAY_DURATION cfg
          in \<not> errorMessage_d_none s1 \<and> errorMessage_textContent s1 = m \<and>
             hide_timers s1 = [Timer (next_timer s) (clock s + D) HideErrorCb] \<and>
             (\<forall>d<D. \<not> errorMessage_d_none (advance (clock s1 + d) s1) \<and>
                     errorMessage_textContent (advance (clock s1 + d) s1) = m \<and>
                     hide_timers (displayError cfg m' (advance (clock s1 + d) s1)) =
                       [Timer (Suc (next_timer s)) (clock s + d + D) HideErrorCb]) \<and>
             errorMessage_d_none (advance (clock s1 + D) s1) \<and>
             hide_timers (advance (clock s1 + D) s1) = [])"
proof -
  have inv: "timer_inv s" by (rule reachable_timer_inv [OF assms])
  let ?D = "ERROR_DISPLAY_DURATION cfg"
  let ?s1 = "displayError cfg m s"
  note e = displayError_effect [OF inv, of cfg m]
  have one: "length (hide_timers s) \<le> 1"
    using inv by (auto simp: timer_inv_def split: option.splits)
  have pos: "next_timer s \<noteq> 0" using inv by (simp add: timer_inv_def)
  have before: "\<not> errorMessage_d_none (advance (clock ?s1 + d) ?s1) \<and>
                errorMessage_textContent (advance (clock ?s1 + d) ?s1) = m \<and>
                hide_timers (displayError cfg m' (advance (clock ?s1 + d) ?s1)) =
                  [Timer (Suc (next_timer s)) (clock s + d + ?D) HideErrorCb]"
    if "d < ?D" for d
  proof -
    let ?s2 = "advance (clock ?s1 + d) ?s1"
    have "\<forall>t\<in>set (hide_timers ?s1). clock ?s1 + d < due t"
      using that e(1) by (simp add: displayError_fields)
    from advance_not_due [OF this] e
    have a: "\<not> errorMessage_d_none ?s2" "errorTimeout ?s2 = Some (next_timer s)"
        "hide_timers ?s2 = hide_timers ?s1"
      by simp_all
    have u: "untimed ?s1 ?s2" by (rule untimed_advance)
    have "timer_inv ?s2" using e(6) by (rule timer_inv_advance)
    from displayError_effect(1) [OF this, of cfg m'] u e(3,5) a
    show ?thesis by (simp add: untimed_def clock_advance displayError_fields)
  qed
  have after: "errorMessage_d_none (advance (clock ?s1 + ?D) ?s1) \<and>
               hide_timers (advance (clock ?s1 + ?D) ?s1) = []"
    using advance_due [OF e(1) e(2) pos, of "clock ?s1 + ?D"] by (simp add: displayError_fields)
  from one e before after show ?thesis by (simp add: Let_def)
qed

theorem error_auto_dismiss_witness:
  "reachable CONFIG loaded_page \<and>
   \<not> errorMessage_d_none (advance 4999 (displayError CONFIG ''no'' loaded_page)) \<and>
   errorMessage_d_none (advance 5000 (displayError CONFIG ''no'' loaded_page)) \<and>
   hide_timers (displayError CONFIG ''again'' (advance 4999 (displayError CONFIG ''no'' loaded_page)))
     = [Timer 2 9999 HideErrorCb]"
proof -
  have c: "clock loaded_page = 0 \<and> next_timer loaded_page = 1 \<and> ERROR_DISPLAY_DURATION CONFIG = 5000"
    by (simp add: loaded_page_eval blank_page_def CONFIG_def)
  from error_auto_dismiss [OF reachable_loaded_page, of "''no''" "''again''"] c reachable_loaded_page
  show ?thesis by (simp add: Let_def displayError_fields)
qed

text \<open>
  C9. A change of either selection, in any state of a session, puts the result and the rate
  text back to their placeholders, forgets the stored rate, hides the error message and
  cancels its timer; it requests nothing and leaves the amount and the catalog as they were.
\<close>

theorem currency_change_resets:
  assumes "reachable cfg s"
  shows "(let s' = resetResults (s\<lparr>fromCurrency_value := v\<rparr>)
          in results_reset s s' \<and> fromCurrency_value s' = v) \<and>
         (let s' = resetResults (s\<lparr>toCurrency_value := v\<rparr>)
          in results_reset s s' \<and> toCurrency_value s' = v) \<and>
         (listeners s \<and> \<not> fromCurrency_disabled s \<and> v \<in> set (fromCurrency_options s) \<longrightarrow>
            dispatch cfg (FromCurrencyChange v) s = resetResults (s\<lparr>fromCurrency_value := v\<rparr>)) \<and>
         (listeners s \<and> \<not> toCurrency_disabled s \<and> v \<in> set (toCurrency_options s) \<longrightarrow>
            dispatch cfg (ToCurrencyChange v) s = resetResults (s\<lparr>toCurrency_value := v\<rparr>))"
proof -
  have inv: "timer_inv s" by (rule reachable_timer_inv [OF assms])
  have "\<And>s0. timer_inv s0 \<Longrightarrow> inflight s0 = inflight s \<Longrightarrow> amount_value s0 = amount_value s \<Longrightarrow>
          currencies s0 = currencies s \<Longrightarrow> results_reset s (resetResults s0)"
  proof -
    fix s0 assume a: "timer_inv s0" "inflight s0 = inflight s" "amount_value s0 = amount_value s"
      "currencies s0 = currencies s"
    let ?s1 = "s0\<lparr>resultAmount_textContent := ''--'',
                  exchangeRate_textContent := ''Exchange Rate: 1 [SOURCE] = [RATE] [TARGET]'',
                  currentExchangeRate := None\<rparr>"
    have "timer_inv ?s1" using a(1) timer_inv_frame [of ?s1 s0] by simp
    from hideError_effect [OF this] a show "results_reset s (resetResults s0)"
      by (simp add: results_reset_def resetResults_def hideError_fields)
  qed
  from this [of "s\<lparr>fromCurrency_value := v\<rparr>"] this [of "s\<lparr>toCurrency_value := v\<rparr>"] inv
  show ?thesis
    by (simp add: Let_def resetResults_def hideError_fields)
qed

theorem currency_change_resets_witness:
  "reachable CONFIG converted_page \<and>
   resultAmount_textContent converted_page = ''90.00'' \<and>
   results_reset converted_page (dispatch CONFIG (ToCurrencyChange ''USD'') converted_page) \<and>
   toCurrency_value (dispatch CONFIG (ToCurrencyChange ''USD'') converted_page) = ''USD'' \<and>
   results_reset converted_page (dispatch CONFIG (FromCurrencyChange ''EUR'') converted_page)"
proof -
  have e: "listeners converted_page \<and> \<not> toCurrency_disabled converted_page \<and>
           \<not> fromCurrency_disabled converted_page \<and>
           ''USD'' \<in> set (toCurrency_options converted_page) \<and>
           ''EUR'' \<in> set (fromCurrency_options converted_page) \<and>
           resultAmount_textContent converted_page = ''90.00''"
    by (simp add: converted_page_eval loaded_page_eval blank_page_def)
  from currency_change_resets [OF reachable_converted_page, of "''USD''"]
       currency_change_resets [OF reachable_converted_page, of "''EUR''"]
       e reachable_converted_page
  show ?thesis by (simp add: Let_def)
qed

text \<open>
  C10, as the code has it. Once the handlers of lines 207--221 are installed, every input
  event on the (enabled) amount field runs \<^verbatim>\<open>handleAmountInput\<close>: the filtered text is written
  back, and then the error message is hidden and its auto-hide timer cancelled, whatever the
  text: the message is hidden, no handle is kept and no auto-hide timer is pending.
\<close>

theorem amount_input_hides_error:
  assumes "reachable cfg s" and "listeners s" and "\<not> amount_disabled s"
  shows "(let s' = dispatch cfg (AmountInput v) s
          in s' = handleAmountInput cfg (s\<lparr>amount_value := v\<rparr>) \<and>
             amount_value s' = sanitized_amount cfg v \<and>
             errorMessage_d_none s' \<and> errorTimeout s' = None \<and> hide_timers s' = [])"
proof -
  have "timer_inv (s\<lparr>amount_value := sanitized_amount cfg v\<rparr>)"
    using reachable_timer_inv [OF assms(1)] by simp
  from hideError_effect [OF this] assms(2,3) show ?thesis
    by (simp add: handleAmountInput_def Let_def hideError_fields)
qed

theorem amount_input_hides_error_witness:
  "reachable CONFIG error_page \<and> listeners error_page \<and> \<not> amount_disabled error_page \<and>
   \<not> errorMessage_d_none error_page \<and>
   hide_timers error_page = [Timer 1 5000 HideErrorCb] \<and>
   errorMessage_d_none (dispatch CONFIG (AmountInput ''x'') error_page) \<and>
   hide_timers (dispatch CONFIG (AmountInput ''x'') error_page) = [] \<and>
   amount_value (dispatch CONFIG (AmountInput ''x'') error_page) = []"
proof -
  have e: "listeners error_page" "\<not> amount_disabled error_page"
    by (simp_all add: error_page_eval loaded_page_eval blank_page_def)
  have f: "\<not> errorMessage_d_none error_page \<and>
           hide_timers error_page = [Timer 1 5000 HideErrorCb]"
    by (simp add: error_page_eval loaded_page_eval blank_page_def hide_timers_def)
  have "sanitized_amount CONFIG ''x'' = []"
    by (simp add: sanitized_amount_def is_digit_def)
  with amount_input_hides_error [OF reachable_error_page e, of "''x''"] e f reachable_error_page
  show ?thesis by (simp add: Let_def)
qed

text \<open>
  C10 as stated fails: the handlers are installed only when the catalog has loaded (line
  71). After a failed load the amount field is enabled and the message of line 75 is
  visible, and an input event there changes the text of the field and nothing else: the
  text is not filtered, the message stays, and so does its auto-hide timer.
\<close>

theorem amount_input_before_handlers_counterexample:
  "reachable CONFIG failed_page \<and> \<not> amount_disabled failed_page \<and>
   \<not> errorMessage_d_none failed_page \<and>
   hide_timers failed_page = [Timer 2 5000 HideErrorCb] \<and>
   amount_value (dispatch CONFIG (AmountInput ''12a'') failed_page) = ''12a'' \<and>
   \<not> errorMessage_d_none (dispatch CONFIG (AmountInput ''12a'') failed_page) \<and>
   errorTimeout (dispatch CONFIG (AmountInput ''12a'') failed_page) = Some 2 \<and>
   hide_timers (dispatch CONFIG (AmountInput ''12a'') failed_page) = [Timer 2 5000 HideErrorCb]"
proof -
  have "\<not> amount_disabled failed_page \<and>
     \<not> errorMessage_d_none failed_page \<and>
     hide_timers failed_page = [Timer 2 5000 HideErrorCb] \<and>
     amount_value (dispatch CONFIG (AmountInput ''12a'') failed_page) = ''12a'' \<and>
     \<not> errorMessage_d_none (dispatch CONFIG (AmountInput ''12a'') failed_page) \<and>
     errorTimeout (dispatch CONFIG (AmountInput ''12a'') failed_page) = Some 2 \<and>
     hide_timers (dispatch CONFIG (AmountInput ''12a'') failed_page) = [Timer 2 5000 HideErrorCb]"
    by code_simp
  with reachable_failed_page show ?thesis by blast
qed

subsection \<open>Requests and their failures\<close>

text \<open>
  C8. While a request is in flight the page is loading, and while it is loading the button
  and the amount field are disabled, so that a click on Convert and the Enter key change
  nothing: no second request is issued, and never more than one is in flight.
\<close>

theorem no_second_request_while_loading:
  assumes "reachable cfg s"
  shows "length (inflight s) \<le> 1 \<and> (inflight s \<noteq> [] \<longrightarrow> isLoading s) \<and>
         (isLoading s \<longrightarrow>
            convertBtn_disabled s \<and> amount_disabled s \<and>
            dispatch cfg ConvertClick s = s \<and> dispatch cfg (AmountKeypress ''Enter'') s = s)"
  using reachable_loading_inv [OF assms] by (auto simp: loading_inv_def)

theorem no_second_request_while_loading_witness:
  "reachable CONFIG loading_page \<and> isLoading loading_page \<and> length (inflight loading_page) = 1 \<and>
   dispatch CONFIG ConvertClick loading_page = loading_page \<and>
   dispatch CONFIG (AmountKeypress ''Enter'') loading_page = loading_page"
proof -
  have "isLoading loading_page \<and> length (inflight loading_page) = 1"
    by (simp add: loading_page_eval)
  with no_second_request_while_loading [OF reachable_loading_page] reachable_loading_page
  show ?thesis by simp
qed

lemma fetch_failed_rejects: "fetch_failed out \<Longrightarrow> \<exists>e. fetchExchangeRate t out = Inl e"
  by (cases out)
     (auto simp: fetchExchangeRate_def response_json_def split: option.splits)

text \<open>
  C6. When the request of a rate fails (no response, a status outside 200--299, a body that
  is not JSON, or a payload whose result is not \<^verbatim>\<open>success\<close>), the page shows the message
  ``Conversion failed. Please try again.'', the result, the rate text, the stored rate and
  the animation are left as they were and no animation timer is added (the success renderer
  writes the four and sets such a timer), and loading is over with all controls enabled; in
  a session no request is left in flight.
\<close>

theorem failed_fetch_shows_error:
  assumes "i < length (inflight s)" and "cont (inflight s ! i) = RateFetch a f t"
    and "fetch_failed out"
  shows "(let s' = dispatch cfg (FetchSettled i out) s
          in \<not> errorMessage_d_none s' \<and>
             errorMessage_textContent s' = ''Conversion failed. Please try again.'' \<and>
             controls_enabled s' \<and>
             resultAmount_textContent s' = resultAmount_textContent s \<and>
             exchangeRate_textContent s' = exchangeRate_textContent s \<and>
             currentExchangeRate s' = currentExchangeRate s \<and>
             resultAmount_animation s' = resultAmount_animation s \<and>
             length (filter (\<lambda>t. callback t = AnimationCb) (timers s'))
               \<le> length (filter (\<lambda>t. callback t = AnimationCb) (timers s)) \<and>
             inflight s' = take i (inflight s) @ drop (Suc i) (inflight s) \<and>
             (reachable cfg s \<longrightarrow> inflight s' = []))"
proof -
  from assms(3) obtain e where e: "fetchExchangeRate t out = Inl e"
    using fetch_failed_rejects [of out t] by auto
  let ?s1 = "s\<lparr>inflight := take i (inflight s) @ drop (Suc i) (inflight s)\<rparr>"
  have d: "dispatch cfg (FetchSettled i out) s = conversion_rejected cfg e ?s1"
    using assms(1,2) e by (simp add: settle_def conversion_settled_def)
  have "reachable cfg s \<Longrightarrow> take i (inflight s) @ drop (Suc i) (inflight s) = []"
    using reachable_loading_inv [of cfg s] assms(1) by (simp add: loading_inv_def)
  moreover have "length (filter (\<lambda>t. callback t = AnimationCb) (timers (conversion_rejected cfg e ?s1)))
                   \<le> length (filter (\<lambda>t. callback t = AnimationCb) (timers s))"
    using conversion_rejected_no_animation [of cfg e ?s1] by simp
  ultimately show ?thesis
    unfolding d Let_def by (auto simp: conversion_rejected_shows conversion_rejected_idle)
qed

theorem failed_fetch_shows_error_witness:
  "reachable CONFIG loading_page \<and> fetch_failed NetworkFailure \<and> fetch_failed (Response 500 None) \<and>
   errorMessage_textContent (dispatch CONFIG (FetchSettled 0 NetworkFailure) loading_page) =
     ''Conversion failed. Please try again.'' \<and>
   \<not> errorMessage_d_none (dispatch CONFIG (FetchSettled 0 NetworkFailure) loading_page) \<and>
   controls_enabled (dispatch CONFIG (FetchSettled 0 NetworkFailure) loading_page) \<and>
   resultAmount_textContent (dispatch CONFIG (FetchSettled 0 NetworkFailure) loading_page) = ''--'' \<and>
   inflight (dispatch CONFIG (FetchSettled 0 NetworkFailure) loading_page) = []"
proof -
  have e: "0 < length (inflight loading_page)"
      "cont (inflight loading_page ! 0) = RateFetch (Fin 100) ''USD'' ''EUR''"
    by (simp_all add: loading_page_eval)
  have r: "resultAmount_textContent loading_page = ''--''"
    by (simp add: loading_page_eval loaded_page_eval blank_page_def)
  have f: "fetch_failed NetworkFailure" "fetch_failed (Response 500 None)" by simp_all
  from failed_fetch_shows_error [OF e f(1), of CONFIG] r f reachable_loading_page
  show ?thesis unfolding Let_def by metis
qed

text \<open>
  C2, as the code has it. On a successful payload that has a rate mapping,
  \<^verbatim>\<open>fetchExchangeRate\<close> resolves with what \<^verbatim>\<open>conversion_rates[toCurrency]\<close> reads: the rate of a
  currency the mapping has, and \<^verbatim>\<open>undefined\<close> for one it does not have (unless the name is
  one every object inherits, such as \<^verbatim>\<open>toString\<close>). No error is raised for a missing rate.
\<close>

theorem fetchExchangeRate_resolves_lookup:
  assumes "response_json out = Inr data" and "result data = ''success''"
    and "conversion_rates data = Some m"
  shows "fetchExchangeRate toCurrency out = Inr (property m toCurrency) \<and>
         (map_of m toCurrency = None \<and> toCurrency \<notin> set object_prototype_names \<longrightarrow>
            fetchExchangeRate toCurrency out = Inr Undefined) \<and>
         (\<forall>r. map_of m toCurrency = Some r \<longrightarrow>
            fetchExchangeRate toCurrency out = Inr (Num r))"
  using assms by (simp add: fetchExchangeRate_def property_def)

theorem fetchExchangeRate_resolves_lookup_witness:
  "response_json (Response 200 (Some demo_catalog)) = Inr demo_catalog \<and>
   fetchExchangeRate ''USD'' (Response 200 (Some demo_catalog)) = Inr (Num (Fin 1)) \<and>
   fetchExchangeRate ''GBP'' (Response 200 (Some demo_catalog)) = Inr Undefined"
proof -
  let ?m = "[(''EUR'', number_value (9 / 10)), (''USD'', Fin 1)]"
  have a: "response_json (Response 200 (Some demo_catalog)) = Inr demo_catalog"
      "result demo_catalog = ''success''" "conversion_rates demo_catalog = Some ?m"
    by (simp_all add: response_json_def demo_catalog_def)
  have b: "map_of ?m ''GBP'' = None" "''GBP'' \<notin> set object_prototype_names"
      "map_of ?m ''USD'' = Some (Fin 1)"
    by (simp_all add: object_prototype_names_def)
  from fetchExchangeRate_resolves_lookup [OF a, of "''USD''"]
       fetchExchangeRate_resolves_lookup [OF a, of "''GBP''"] a(1) b
  show ?thesis by blast
qed

text \<open>
  C2 as stated fails: with \<^verbatim>\<open>EUR\<close> absent from the mapping of a successful response, the
  promise resolves, with \<^verbatim>\<open>undefined\<close>.
\<close>

theorem fetchExchangeRate_missing_rate_counterexample:
  "conversion_rates usd_only = Some [(''USD'', Fin 1)] \<and>
   map_of [(''USD'', Fin 1 :: js_number)] ''EUR'' = None \<and>
   fetchExchangeRate ''EUR'' (Response 200 (Some usd_only)) = Inr Undefined"
  by (simp add: usd_only_def fetchExchangeRate_def response_json_def property_def
        object_prototype_names_def)

text \<open>What the page shows then: the success callback writes \<^verbatim>\<open>NaN\<close> as the amount, throws
  on \<^verbatim>\<open>rate.toFixed\<close>, and the failure callback displays its message over it.\<close>

lemma missing_rate_shows_NaN:
  assumes "DECIMAL_PLACES cfg \<le> 100" and "response_json out = Inr data"
    and "result data = ''success''" and "conversion_rates data = Some m"
    and "map_of m t = None"
  shows "resultAmount_textContent (conversion_settled cfg a f t out s) = ''NaN'' \<and>
         errorMessage_textContent (conversion_settled cfg a f t out s) =
           ''Conversion failed. Please try again.'' \<and>
         \<not> errorMessage_d_none (conversion_settled cfg a f t out s) \<and>
         exchangeRate_textContent (conversion_settled cfg a f t out s) = exchangeRate_textContent s \<and>
         currentExchangeRate (conversion_settled cfg a f t out s) = currentExchangeRate s"
proof -
  have f: "fetchExchangeRate t out = Inr (property m t)"
    using assms(2-4) by (simp add: fetchExchangeRate_def)
  have n: "ToNumber (property m t) = NaN" using assms(5) by (simp add: property_def)
  have x: "toFixed (js_times a NaN) (DECIMAL_PLACES cfg) = Inr ''NaN''"
    using assms(1) by (simp add: toFixed_def js_times_def)
  have l: "toLocaleString NaN (DECIMAL_PLACES cfg) = Inr ''NaN''"
    using assms(1) by (simp add: toLocaleString_def)
  have "\<exists>e. conversion_settled cfg a f t out s =
          conversion_rejected cfg e (s\<lparr>resultAmount_textContent := ''NaN''\<rparr>)"
    using assms(5)
    by (auto simp: conversion_settled_def f conversion_resolved_def n x displayConversionResults_def
          eval_parseFloat_NaN l property_def)
  then show ?thesis by (auto simp: conversion_rejected_shows)
qed

subsection \<open>Validation\<close>


text \<open>
  C3, as the code has it. The amount is read by \<^verbatim>\<open>parseFloat\<close>, which takes the longest
  decimal numeral at the start of the trimmed text and ignores what follows. The validator
  rejects every request whose trimmed amount is empty, does not start with a numeral, or
  starts with one whose value (as a double) is zero or negative; it accepts every request
  whose amount starts with a numeral of positive finite value when both currencies are
  chosen and differ.
\<close>

theorem validateInputs_numeral_prefix:
  "(trim (amount_value s) = [] \<longrightarrow> \<not> fst (validateInputs cfg s)) \<and>
   (str_decimal_literal (trim (amount_value s)) = None \<longrightarrow> \<not> fst (validateInputs cfg s)) \<and>
   (\<forall>neg lit rest.
      str_decimal_literal (trim (amount_value s)) = Some (neg, lit, rest) \<and>
      js_le_zero (literal_value neg lit) \<longrightarrow> \<not> fst (validateInputs cfg s)) \<and>
   (\<forall>neg lit rest q.
      str_decimal_literal (trim (amount_value s)) = Some (neg, lit, rest) \<and>
      literal_value neg lit = Fin q \<and> 0 < q \<and>
      fromCurrency_value s \<noteq> [] \<and> toCurrency_value s \<noteq> [] \<and>
      fromCurrency_value s \<noteq> toCurrency_value s \<longrightarrow> fst (validateInputs cfg s))"
  by (auto simp: validateInputs_def Let_def parseFloat_trim str_decimal_literal_def)

theorem validateInputs_numeral_prefix_witness:
  "fst (validateInputs CONFIG (loaded_page\<lparr>amount_value := '' 2.50 ''\<rparr>)) \<and>
   \<not> fst (validateInputs CONFIG (loaded_page\<lparr>amount_value := ''-3''\<rparr>)) \<and>
   \<not> fst (validateInputs CONFIG (loaded_page\<lparr>amount_value := ''abc''\<rparr>)) \<and>
   \<not> fst (validateInputs CONFIG (loaded_page\<lparr>amount_value := ''   ''\<rparr>))"
proof -
  have t: "trim '' 2.50 '' = ''2.50''" "trim ''-3'' = ''-3''" "trim ''abc'' = ''abc''"
      "trim ''   '' = []"
    by (simp_all add: trim_def is_js_space_def)
  have l: "str_decimal_literal ''2.50'' = Some (False, DecimalLit ''2'' ''50'' 0, [])"
      "str_decimal_literal ''-3'' = Some (True, DecimalLit ''3'' [] 0, [])"
      "str_decimal_literal ''abc'' = None"
    by code_simp+
  have v: "literal_value False (DecimalLit ''2'' ''50'' 0) = Fin (5 / 2)"
      "js_le_zero (literal_value True (DecimalLit ''3'' [] 0))"
    by code_simp+
  have c: "fromCurrency_value loaded_page = ''USD''" "toCurrency_value loaded_page = ''EUR''"
    by (simp_all add: loaded_page_eval blank_page_def)
  have 1: "fst (validateInputs CONFIG (loaded_page\<lparr>amount_value := '' 2.50 ''\<rparr>))"
    by (rule validateInputs_numeral_prefix [of "loaded_page\<lparr>amount_value := '' 2.50 ''\<rparr>" CONFIG,
          THEN conjunct2, THEN conjunct2, THEN conjunct2, rule_format,
          where q = "5 / 2" and neg = False and lit = "DecimalLit ''2'' ''50'' 0" and rest = "[]"])
       (simp add: t l v c del: literal_value.simps)
  have 2: "\<not> fst (validateInputs CONFIG (loaded_page\<lparr>amount_value := ''-3''\<rparr>))"
    by (rule validateInputs_numeral_prefix [of "loaded_page\<lparr>amount_value := ''-3''\<rparr>" CONFIG,
          THEN conjunct2, THEN conjunct2, THEN conjunct1, rule_format,
          where neg = True and lit = "DecimalLit ''3'' [] 0" and rest = "[]"])
       (simp add: t l v del: literal_value.simps)
  have 3: "\<not> fst (validateInputs CONFIG (loaded_page\<lparr>amount_value := ''abc''\<rparr>))"
    by (rule validateInputs_numeral_prefix [of "loaded_page\<lparr>amount_value := ''abc''\<rparr>" CONFIG,
          THEN conjunct2, THEN conjunct1, rule_format])
       (simp add: t l)
  have 4: "\<not> fst (validateInputs CONFIG (loaded_page\<lparr>amount_value := ''   ''\<rparr>))"
    by (rule validateInputs_numeral_prefix [of "loaded_page\<lparr>amount_value := ''   ''\<rparr>" CONFIG,
          THEN conjunct1, rule_format])
       (simp add: t)
  from 1 2 3 4 show ?thesis by simp
qed

text \<open>
  C3 as stated fails: the text \<^verbatim>\<open>12abc\<close> is not a number, and the validator accepts it
  (it reads 12).
\<close>

theorem validateInputs_accepts_trailing_text:
  "\<not> numeric_text (trim ''12abc'') \<and>
   fst (validateInputs CONFIG (loaded_page\<lparr>amount_value := ''12abc''\<rparr>))"
proof -
  have "loaded_page\<lparr>amount_value := ''12abc''\<rparr> =
        blank_page\<lparr>currencies := Some [(''EUR'', Fin (8106479329266893 / 9007199254740992)), (''USD'', Fin 1)],
          fromCurrency_value := ''USD'', toCurrency_value := ''EUR'',
          fromCurrency_options := [''EUR'', ''USD''], toCurrency_options := [''EUR'', ''USD''],
          listeners := True, focused := Some AmountEl, amount_value := ''12abc''\<rparr>"
    by (simp add: loaded_page_eval)
  moreover have "fst (validateInputs CONFIG (blank_page\<lparr>currencies := Some [(''EUR'', Fin (8106479329266893 / 9007199254740992)), (''USD'', Fin 1)],
          fromCurrency_value := ''USD'', toCurrency_value := ''EUR'',
          fromCurrency_options := [''EUR'', ''USD''], toCurrency_options := [''EUR'', ''USD''],
          listeners := True, focused := Some AmountEl, amount_value := ''12abc''\<rparr>))"
    by code_simp
  moreover have "\<not> numeric_text (trim ''12abc'')" by code_simp
  ultimately show ?thesis by simp
qed

subsection \<open>A conversion\<close>




end
